theory Spec2Isabelle
  imports Main "HOL-Library.AList"
begin

section \<open>Go values shared by the middleware\<close>

text \<open>
  The repository is a small library of \<^verbatim>\<open>net/http\<close> middleware. Its sources
  come in several revisions of the same functions:
  \<^item> \<^verbatim>\<open>src/web.go\<close> and the two revisions in \<^verbatim>\<open>src/unnamed/part_000\<close>
    (response observer, \<^verbatim>\<open>Recover\<close>, \<^verbatim>\<open>LogRequest\<close>, \<^verbatim>\<open>RunHTTP\<close>);
  \<^item> \<^verbatim>\<open>src/validate.go\<close> and the two revisions in \<^verbatim>\<open>src/unnamed/part_001\<close>
    (\<^verbatim>\<open>ValidateJSONSchema\<close>).
  Where revisions differ, each is a definition of its own, named after its file.
  The standard library, \<^verbatim>\<open>logrus\<close> and \<^verbatim>\<open>gojsonschema\<close> are not part of the
  repository: what the code uses of them is modelled after their documentation or
  taken as a parameter.
  A byte slice and a Go string are both a \<open>string\<close> here (a list of 8-bit characters).
\<close>

type_synonym bytes = string

text \<open>
  A Go \<^verbatim>\<open>error\<close> as the code tests it: the sentinel \<^verbatim>\<open>io.EOF\<close>, or any other
  error, of which only the text of \<^verbatim>\<open>err.Error()\<close> is used.
\<close>

datatype go_error = EOF | OtherError string

fun ErrorText :: "go_error \<Rightarrow> string" where
  "ErrorText EOF = ''EOF''"
| "ErrorText (OtherError s) = s"

abbreviation StatusOK :: int where "StatusOK \<equiv> 200"
abbreviation StatusBadRequest :: int where "StatusBadRequest \<equiv> 400"
abbreviation StatusInternalServerError :: int where "StatusInternalServerError \<equiv> 500"

subsection \<open>Request bodies and requests\<close>

text \<open>
  \<^verbatim>\<open>r.Body\<close> is an \<^verbatim>\<open>io.ReadCloser\<close>: the bytes that are still to be read and the
  error (if any) that reading ends with instead of a clean end of input.
  \<^verbatim>\<open>ioutil.ReadAll\<close> returns what it could read with that error and leaves the
  reader drained.
\<close>

record ReadCloser =
  remaining :: bytes
  readErr :: "string option"

definition ReadAll :: "ReadCloser \<Rightarrow> (bytes \<times> string option) \<times> ReadCloser" where
  "ReadAll b = ((remaining b, readErr b), b\<lparr>remaining := []\<rparr>)"

text \<open>\<^verbatim>\<open>nopCloser{bytes.NewReader(buf)}\<close>: a reader positioned at the start of \<open>buf\<close>.\<close>

definition nopCloser_NewReader :: "bytes \<Rightarrow> ReadCloser" where
  "nopCloser_NewReader buf = \<lparr>remaining = buf, readErr = None\<rparr>"

record Request =
  Body :: ReadCloser
  RemoteAddr :: string
  Method :: string
  Proto :: string
  RequestURI :: string

subsection \<open>Response writers\<close>

text \<open>
  \<^verbatim>\<open>http.ResponseWriter\<close> is an interface. A value of it is a state \<open>'w\<close> together with
  its method table; \<open>Write\<close> returns the count and the error of the call.
  \<^verbatim>\<open>w.Header().Set(k, v)\<close> is the one use of the header map in the sources
  (inside \<^verbatim>\<open>http.Error\<close>).
\<close>

record 'w ResponseWriter =
  HeaderSet :: "'w \<Rightarrow> string \<Rightarrow> string \<Rightarrow> 'w"
  Write :: "'w \<Rightarrow> bytes \<Rightarrow> (int \<times> string option) \<times> 'w"
  WriteHeader :: "'w \<Rightarrow> int \<Rightarrow> 'w"

text \<open>
  The writer the \<^verbatim>\<open>net/http\<close> server hands to a handler (and
  \<^verbatim>\<open>httptest.ResponseRecorder\<close>): the status line is fixed by the first
  \<^verbatim>\<open>WriteHeader\<close>, or by the first \<^verbatim>\<open>Write\<close> as 200; a later \<^verbatim>\<open>WriteHeader\<close>
  is ignored. Every write is complete.
\<close>

record response =
  wroteHeader :: bool
  statusCode :: int
  sent :: bytes
  headers :: "(string \<times> string) list"

definition response_WriteHeader :: "response \<Rightarrow> int \<Rightarrow> response" where
  "response_WriteHeader c s =
     (if wroteHeader c then c else c\<lparr>wroteHeader := True, statusCode := s\<rparr>)"

definition response_Write :: "response \<Rightarrow> bytes \<Rightarrow> (int \<times> string option) \<times> response" where
  "response_Write c b =
     (let c' = (if wroteHeader c then c else response_WriteHeader c StatusOK)
      in ((int (length b), None), c'\<lparr>sent := sent c' @ b\<rparr>))"

definition response_HeaderSet :: "response \<Rightarrow> string \<Rightarrow> string \<Rightarrow> response" where
  "response_HeaderSet c k v = c\<lparr>headers := AList.update k v (headers c)\<rparr>"

definition response_ops :: "response ResponseWriter" where
  "response_ops = \<lparr>HeaderSet = response_HeaderSet, Write = response_Write,
                   WriteHeader = response_WriteHeader\<rparr>"

definition new_response :: response where
  "new_response = \<lparr>wroteHeader = False, statusCode = 0, sent = [], headers = []\<rparr>"

text \<open>
  \<^verbatim>\<open>http.Error(w, error, code)\<close>: sets the two headers, writes the status and prints
  the message followed by a newline. The result of the write is dropped.
\<close>

definition http_Error :: "'w ResponseWriter \<Rightarrow> 'w \<Rightarrow> string \<Rightarrow> int \<Rightarrow> 'w" where
  "http_Error W w msg code =
     (let w1 = HeaderSet W w ''Content-Type'' ''text/plain; charset=utf-8'';
          w2 = HeaderSet W w1 ''X-Content-Type-Options'' ''nosniff'';
          w3 = WriteHeader W w2 code
      in snd (Write W w3 (msg @ [CHR 0x0A])))"

section \<open>The response observer\<close>

text \<open>
  \<^verbatim>\<open>loggedResponse\<close> of \<^verbatim>\<open>src/web.go\<close>; the revision of
  \<^verbatim>\<open>src/unnamed/part_000\<close> (package httplib) adds the field \<^verbatim>\<open>body\<close>.
  \<^verbatim>\<open>started\<close> is a reading of the clock. \<^verbatim>\<open>size\<close> is a Go \<^verbatim>\<open>int\<close> of 64 bits;
  it is an unbounded \<open>int\<close> here, since no response reaches \<open>2^63\<close> bytes.
  \<^verbatim>\<open>Flush\<close> only calls the wrapped writer's \<^verbatim>\<open>Flush\<close> and is left out.
\<close>

record 'w loggedResponse =
  w :: 'w
  started :: int
  status :: int
  size :: int

record 'w loggedResponse_httplib = "'w loggedResponse" +
  body :: string

text \<open>\<^verbatim>\<open>func (l *loggedResponse) Write(b []byte) (int, error)\<close>, \<^verbatim>\<open>src/web.go\<close>.\<close>

definition loggedResponse_Write ::
  "'w ResponseWriter \<Rightarrow> ('w, 'z) loggedResponse_scheme \<Rightarrow> bytes
     \<Rightarrow> (int \<times> string option) \<times> ('w, 'z) loggedResponse_scheme" where
  "loggedResponse_Write W l b =
     (let l1 = (if status l = 0 then l\<lparr>status := StatusOK\<rparr> else l);
          ((n, err), w') = Write W (w l1) b
      in ((n, err), l1\<lparr>w := w', size := size l1 + n\<rparr>))"

text \<open>The same method in \<^verbatim>\<open>src/unnamed/part_000\<close>, lines 32-41.\<close>

definition loggedResponse_Write_httplib ::
  "'w ResponseWriter \<Rightarrow> 'w loggedResponse_httplib \<Rightarrow> bytes
     \<Rightarrow> (int \<times> string option) \<times> 'w loggedResponse_httplib" where
  "loggedResponse_Write_httplib W l b =
     (let l1 = (if status l = 0 then l\<lparr>status := StatusOK\<rparr> else l);
          l2 = l1\<lparr>body := body l1 @ b\<rparr>;
          ((n, err), w') = Write W (w l2) b
      in ((n, err), l2\<lparr>w := w', size := size l2 + n\<rparr>))"

text \<open>\<^verbatim>\<open>func (l *loggedResponse) WriteHeader(status int)\<close>, the same in every revision.\<close>

definition loggedResponse_WriteHeader ::
  "'w ResponseWriter \<Rightarrow> ('w, 'z) loggedResponse_scheme \<Rightarrow> int
     \<Rightarrow> ('w, 'z) loggedResponse_scheme" where
  "loggedResponse_WriteHeader W l s = l\<lparr>w := WriteHeader W (w l) s, status := s\<rparr>"

text \<open>\<^verbatim>\<open>Header()\<close> returns the header map of the wrapped writer.\<close>

definition loggedResponse_HeaderSet ::
  "'w ResponseWriter \<Rightarrow> ('w, 'z) loggedResponse_scheme \<Rightarrow> string \<Rightarrow> string
     \<Rightarrow> ('w, 'z) loggedResponse_scheme" where
  "loggedResponse_HeaderSet W l k v = l\<lparr>w := HeaderSet W (w l) k v\<rparr>"

text \<open>The observer as an \<^verbatim>\<open>http.ResponseWriter\<close> (\<^verbatim>\<open>&lw\<close>), in both revisions.\<close>

definition loggedResponse_ops :: "'w ResponseWriter \<Rightarrow> 'w loggedResponse ResponseWriter" where
  "loggedResponse_ops W =
     \<lparr>HeaderSet = loggedResponse_HeaderSet W, Write = loggedResponse_Write W,
      WriteHeader = loggedResponse_WriteHeader W\<rparr>"

definition loggedResponse_httplib_ops ::
  "'w ResponseWriter \<Rightarrow> 'w loggedResponse_httplib ResponseWriter" where
  "loggedResponse_httplib_ops W =
     \<lparr>HeaderSet = loggedResponse_HeaderSet W, Write = loggedResponse_Write_httplib W,
      WriteHeader = loggedResponse_WriteHeader W\<rparr>"

text \<open>
  What a handler does to the writer it is given is a sequence of method calls. For a
  fixed writer every handler, also one that looks at the results of its calls, performs
  one such sequence, so a statement about all sequences covers all handlers.
\<close>

datatype call = CallWrite bytes | CallWriteHeader int

fun perform :: "'w ResponseWriter \<Rightarrow> call list \<Rightarrow> 'w \<Rightarrow> 'w" where
  "perform W [] x = x"
| "perform W (CallWrite b # cs) x = perform W cs (snd (Write W x b))"
| "perform W (CallWriteHeader s # cs) x = perform W cs (WriteHeader W x s)"

text \<open>The counts the writer returns for the writes of a sequence of calls, added up.\<close>

fun returned_total :: "'w ResponseWriter \<Rightarrow> call list \<Rightarrow> 'w \<Rightarrow> int" where
  "returned_total W [] x = 0"
| "returned_total W (CallWrite b # cs) x =
     fst (fst (Write W x b)) + returned_total W cs (snd (Write W x b))"
| "returned_total W (CallWriteHeader s # cs) x = returned_total W cs (WriteHeader W x s)"

text \<open>The slices \<open>b1, ..., bn\<close> of the writes of a sequence, and \<open>sum(len(bi))\<close>.\<close>

fun requested_writes :: "call list \<Rightarrow> bytes list" where
  "requested_writes [] = []"
| "requested_writes (CallWrite b # cs) = b # requested_writes cs"
| "requested_writes (CallWriteHeader s # cs) = requested_writes cs"

definition requested_total :: "call list \<Rightarrow> int" where
  "requested_total cs = sum_list (map (\<lambda>b. int (length b)) (requested_writes cs))"

text \<open>The statuses passed to \<^verbatim>\<open>WriteHeader\<close>, in the order of the calls.\<close>

fun explicit_statuses :: "call list \<Rightarrow> int list" where
  "explicit_statuses [] = []"
| "explicit_statuses (CallWrite b # cs) = explicit_statuses cs"
| "explicit_statuses (CallWriteHeader s # cs) = s # explicit_statuses cs"

text \<open>\<^verbatim>\<open>loggedResponse{w: w, started: time.Now()}\<close>\<close>

definition new_loggedResponse :: "'w \<Rightarrow> int \<Rightarrow> 'w loggedResponse" where
  "new_loggedResponse x t = \<lparr>w = x, started = t, status = 0, size = 0\<rparr>"

definition new_loggedResponse_httplib :: "'w \<Rightarrow> int \<Rightarrow> 'w loggedResponse_httplib" where
  "new_loggedResponse_httplib x t = \<lparr>w = x, started = t, status = 0, size = 0, body = []\<rparr>"

text \<open>
  A writer whose connection accepts only \<open>n\<close> more bytes: a write beyond that is short
  and returns an error.
\<close>

record limited =
  room :: nat
  accepted :: bytes

definition limited_Write :: "limited \<Rightarrow> bytes \<Rightarrow> (int \<times> string option) \<times> limited" where
  "limited_Write c b =
     (if length b \<le> room c
      then ((int (length b), None), c\<lparr>room := room c - length b, accepted := accepted c @ b\<rparr>)
      else ((int (room c), Some ''short write''),
            c\<lparr>room := 0, accepted := accepted c @ take (room c) b\<rparr>))"

definition limited_ops :: "limited ResponseWriter" where
  "limited_ops = \<lparr>HeaderSet = (\<lambda>c k v. c), Write = limited_Write, WriteHeader = (\<lambda>c s. c)\<rparr>"

section \<open>Handlers, the logger and the clock\<close>

text \<open>
  The \<^verbatim>\<open>logrus\<close> logger is the list of the entries written so far: level, message
  and the fields of \<^verbatim>\<open>WithFields\<close>. The logger is set: \<^verbatim>\<open>RunHTTP\<close> logs through
  it before serving. \<open>clock\<close> is what \<^verbatim>\<open>time.Now()\<close> returns.
\<close>

datatype Level = InfoLevel | ErrorLevel

datatype field = Str string | Num int

record Entry =
  Level :: Level
  Message :: string
  Data :: "(string \<times> field) list"

record world =
  logged :: "Entry list"
  clock :: int

definition log_entry :: "Level \<Rightarrow> (string \<times> field) list \<Rightarrow> string \<Rightarrow> world \<Rightarrow> world" where
  "log_entry lv fs msg st = st\<lparr>logged := logged st @ [\<lparr>Level = lv, Message = msg, Data = fs\<rparr>]\<rparr>"

text \<open>
  A call of \<^verbatim>\<open>ServeHTTP(w, r)\<close> ends by returning or by a panic. Both leave the
  writer, the request (a pointer) and the world as the handler changed them. A panic
  carries its (non-nil) value, a string or a value of some other type of which only
  the type's name is used, and the stack trace at the point of the panic.
\<close>

datatype panic_value = PanicString string | PanicOther string

datatype outcome = Returned | Panicked panic_value string

datatype 'w result = Result (writer: 'w) (request: Request) (world: world) (outcome: outcome)

type_synonym 'w Handler = "'w \<Rightarrow> Request \<Rightarrow> world \<Rightarrow> 'w result"

text \<open>A handler that performs a fixed sequence of calls and then returns or panics.\<close>

definition scripted :: "'w ResponseWriter \<Rightarrow> call list \<Rightarrow> outcome \<Rightarrow> 'w Handler" where
  "scripted W cs out x r st = Result (perform W cs x) r st out"

section \<open>Recover, LogRequest and RunHTTP\<close>

text \<open>
  \<^verbatim>\<open>Recover\<close> of \<^verbatim>\<open>src/web.go\<close>, lines 44-57: the deferred function runs when the
  handler panicked, logs and writes the status; the call then returns normally.
\<close>

definition Recover :: "'w ResponseWriter \<Rightarrow> 'w Handler \<Rightarrow> 'w Handler" where
  "Recover W handler x r st =
     (case handler x r st of
        Result x' r' st' Returned \<Rightarrow> Result x' r' st' Returned
      | Result x' r' st' (Panicked rec tb) \<Rightarrow>
          Result (WriteHeader W x' StatusInternalServerError) r'
            (log_entry ErrorLevel [(''traceback'', Str tb)] ''Unhandled panic'' st') Returned)"

text \<open>
  \<^verbatim>\<open>Recover\<close> of \<^verbatim>\<open>src/unnamed/part_000\<close>, lines 49-72: the trace is cut to the
  4096 bytes of \<^verbatim>\<open>buf\<close>, the message names the panic value, and the response is
  written by \<^verbatim>\<open>http.Error\<close>.
\<close>

definition Recover_httplib :: "'w ResponseWriter \<Rightarrow> 'w Handler \<Rightarrow> 'w Handler" where
  "Recover_httplib W handler x r st =
     (case handler x r st of
        Result x' r' st' Returned \<Rightarrow> Result x' r' st' Returned
      | Result x' r' st' (Panicked rec tb) \<Rightarrow>
          (let stack = take 4096 tb;
               msg = ''Unhandled panic: '' @ (case rec of PanicString v \<Rightarrow> v | PanicOther ty \<Rightarrow> ty)
           in Result (http_Error W x' (msg @ '' '' @ [CHR 0x0A] @ stack) StatusInternalServerError) r'
                (log_entry ErrorLevel [(''traceback'', Str stack)] msg st') Returned))"

text \<open>
  \<^verbatim>\<open>LogRequest\<close> of \<^verbatim>\<open>src/web.go\<close>, lines 60-85. The code after
  \<^verbatim>\<open>handler.ServeHTTP(&lw, r)\<close> does not run when the handler panics.
  \<^verbatim>\<open>http.StatusText\<close> is a table of the standard library, a parameter here.
\<close>

definition request_fields :: "('w, 'z) loggedResponse_scheme \<Rightarrow> Request \<Rightarrow> world \<Rightarrow> (string \<times> field) list" where
  "request_fields lw r st =
     [(''status'', Num (status lw)), (''remote'', Str (RemoteAddr r)), (''method'', Str (Method r)),
      (''proto'', Str (Proto r)), (''uri'', Str (RequestURI r)),
      (''took'', Num (clock st - started lw)), (''size'', Num (size lw))]"

definition LogRequest :: "(int \<Rightarrow> string) \<Rightarrow> 'w loggedResponse Handler \<Rightarrow> 'w Handler" where
  "LogRequest StatusText handler x r st =
     (case handler (new_loggedResponse x (clock st)) r st of
        Result lw r' st' (Panicked rec tb) \<Rightarrow> Result (w lw) r' st' (Panicked rec tb)
      | Result lw r' st' Returned \<Rightarrow>
          (let lm = request_fields lw r' st';
               ((byteBodyMessage, _), drained) = ReadAll (Body r');
               msg = StatusText (status lw) @ '': '' @ byteBodyMessage
           in Result (w lw) (r'\<lparr>Body := drained\<rparr>)
                (log_entry (if status lw < 400 then InfoLevel else ErrorLevel) lm msg st') Returned))"

text \<open>\<^verbatim>\<open>LogRequest\<close> of \<^verbatim>\<open>src/unnamed/part_000\<close>, lines 78-103.\<close>

definition LogRequest_httplib ::
  "(int \<Rightarrow> string) \<Rightarrow> 'w loggedResponse_httplib Handler \<Rightarrow> 'w Handler" where
  "LogRequest_httplib StatusText handler x r st =
     (case handler (new_loggedResponse_httplib x (clock st)) r st of
        Result lw r' st' (Panicked rec tb) \<Rightarrow> Result (w lw) r' st' (Panicked rec tb)
      | Result lw r' st' Returned \<Rightarrow>
          (let lm = request_fields lw r' st'
           in Result (w lw) r'
                (if status lw < 400 then log_entry InfoLevel lm (StatusText (status lw)) st'
                 else if status lw \<ge> 400 \<and> status lw < 500
                 then log_entry InfoLevel lm (StatusText (status lw) @ [CHR 0x0A] @ body lw) st'
                 else log_entry ErrorLevel lm (StatusText (status lw) @ [CHR 0x0A] @ body lw) st')
                Returned))"

text \<open>
  The handler \<^verbatim>\<open>RunHTTP\<close> passes to \<^verbatim>\<open>http.ListenAndServe\<close>:
  \<^verbatim>\<open>LogRequest(Recover(h, log), log)\<close> in \<^verbatim>\<open>src/web.go\<close>, line 92, and
  \<^verbatim>\<open>LogRequest(Recover(h))\<close> in \<^verbatim>\<open>src/unnamed/part_000\<close>, line 115. The
  application handler \<open>h\<close> is called with the observer \<^verbatim>\<open>&lw\<close> as its writer.
\<close>

definition RunHTTP_handler ::
  "(int \<Rightarrow> string) \<Rightarrow> 'w ResponseWriter \<Rightarrow> 'w loggedResponse Handler \<Rightarrow> 'w Handler" where
  "RunHTTP_handler StatusText W h = LogRequest StatusText (Recover (loggedResponse_ops W) h)"

definition RunHTTP_handler_httplib ::
  "(int \<Rightarrow> string) \<Rightarrow> 'w ResponseWriter \<Rightarrow> 'w loggedResponse_httplib Handler \<Rightarrow> 'w Handler" where
  "RunHTTP_handler_httplib StatusText W h =
     LogRequest_httplib StatusText (Recover_httplib (loggedResponse_httplib_ops W) h)"

section \<open>The schema validation gate\<close>

subsection \<open>The libraries the gate calls\<close>

text \<open>
  A \<^verbatim>\<open>gojsonschema.Result\<close> is the list of its errors; \<^verbatim>\<open>Valid()\<close> says that the
  list is empty. Of a \<^verbatim>\<open>ResultError\<close> the code reads \<^verbatim>\<open>Description()\<close> and
  \<^verbatim>\<open>Details()\<close>.
\<close>

record ResultError =
  Description :: string
  Details :: "(string \<times> string) list"

type_synonym Result = "ResultError list"

definition Result_Valid :: "Result \<Rightarrow> bool" where
  "Result_Valid vr = (vr = [])"

text \<open>
  \<^verbatim>\<open>ValidationResult\<close> of \<^verbatim>\<open>src/unnamed/part_001\<close>, lines 13-16: \<^verbatim>\<open>Errors\<close> is an
  \<^verbatim>\<open>interface{}\<close> that holds a \<^verbatim>\<open>[]string\<close> or a \<^verbatim>\<open>[]gojsonschema.ErrorDetails\<close>.
\<close>

datatype errors_value = Messages "string list" | DetailsList "(string \<times> string) list list"

record ValidationResult =
  Valid :: bool
  Errors :: errors_value

definition ErrorValidationResult :: "Result \<Rightarrow> ValidationResult" where
  "ErrorValidationResult vr = \<lparr>Valid = Result_Valid vr, Errors = DetailsList (map Details vr)\<rparr>"

text \<open>
  A \<^verbatim>\<open>json.Decoder\<close> over the buffered body. The buffer is finite, so the decoder is
  the list of the results of its next calls of \<^verbatim>\<open>Decode(&obj)\<close> and the error that
  every call after them returns: \<^verbatim>\<open>io.EOF\<close> at a clean end of input, or the syntax
  error it met, which the decoder keeps (\<^verbatim>\<open>dec.err\<close>) and returns again on every
  later call. A result in the list is the value left in \<^verbatim>\<open>obj\<close> (\<open>None\<close> is the nil
  interface, which is also what JSON \<^verbatim>\<open>null\<close> decodes to) and the error of that call,
  if any, which is not kept.
\<close>

record 'j Decoder =
  queue :: "('j option \<times> string option) list"
  final :: go_error

definition Decode :: "'j Decoder \<Rightarrow> ('j option \<times> go_error option) \<times> 'j Decoder" where
  "Decode dec =
     (case queue dec of
        [] \<Rightarrow> ((None, Some (final dec)), dec)
      | (obj, err) # rest \<Rightarrow> ((obj, map_option OtherError err), dec\<lparr>queue := rest\<rparr>))"

text \<open>
  The library calls of the gate, as parameters: \<^verbatim>\<open>json.NewDecoder\<close> over the bytes
  of the body; the compiled schema applied to a decoded value
  (\<^verbatim>\<open>schema.Validate(gojsonschema.NewGoLoader(obj))\<close>) and to the text of the body
  (\<^verbatim>\<open>schema.Validate(gojsonschema.NewStringLoader(string(buf)))\<close>), \<open>Inl\<close> being the
  error of the engine; \<^verbatim>\<open>json.Marshal\<close> of the map with the keys \<^verbatim>\<open>valid\<close> and
  \<^verbatim>\<open>errors\<close>, and of a \<^verbatim>\<open>ValidationResult\<close> struct. The schema is compiled when
  the middleware is built; \<^verbatim>\<open>ValidateJSONSchema\<close> panics there if that fails, before
  any request.
\<close>

record 'j library =
  NewDecoder :: "bytes \<Rightarrow> 'j Decoder"
  Validate :: "'j option \<Rightarrow> string + Result"
  ValidateString :: "bytes \<Rightarrow> string + Result"
  MarshalMap :: "bool \<Rightarrow> string list \<Rightarrow> bytes"
  MarshalStruct :: "ValidationResult \<Rightarrow> bytes"

text \<open>\<^verbatim>\<open>func (vr ValidationResult) MarshalJSON()\<close>, \<^verbatim>\<open>src/validate.go\<close>, lines 17-26.\<close>

definition ValidationResult_MarshalJSON :: "'j library \<Rightarrow> Result \<Rightarrow> bytes" where
  "ValidationResult_MarshalJSON L vr = MarshalMap L (Result_Valid vr) (map Description vr)"

subsection \<open>\<^verbatim>\<open>src/validate.go\<close>: stop at the first invalid document\<close>

text \<open>
  The \<^verbatim>\<open>for\<close> loop of lines 55-74. It ends at \<^verbatim>\<open>break\<close> or at a \<^verbatim>\<open>return\<close>; the
  branch for a decoding error writes the response and goes on to validate \<^verbatim>\<open>obj\<close>.
  The loop need not end, so it runs on fuel: \<open>None\<close> says that the fuel was used up.
\<close>

datatype 'w loop_exit = Break 'w | Return 'w

fun validate_loop ::
  "nat \<Rightarrow> 'w ResponseWriter \<Rightarrow> 'j library \<Rightarrow> 'j Decoder \<Rightarrow> 'w \<Rightarrow> 'w loop_exit option" where
  "validate_loop 0 W L dec x = None"
| "validate_loop (Suc fuel) W L dec x =
     (case Decode dec of ((obj, err), dec') \<Rightarrow>
        if err = Some EOF then Some (Break x)
        else
          let x1 = (case err of
                      None \<Rightarrow> x
                    | Some e \<Rightarrow> http_Error W x (''Invalid JSON: '' @ ErrorText e) StatusBadRequest)
          in (case Validate L obj of
                Inl e \<Rightarrow>
                  Some (Return (http_Error W x1 (''Failed to validate: '' @ e)
                                  StatusInternalServerError))
              | Inr validationResult \<Rightarrow>
                  if \<not> Result_Valid validationResult
                  then Some (Return (http_Error W x1
                                       (ValidationResult_MarshalJSON L validationResult)
                                       StatusBadRequest))
                  else validate_loop fuel W L dec' x1))"

definition ValidateJSONSchema ::
  "nat \<Rightarrow> 'w ResponseWriter \<Rightarrow> 'j library \<Rightarrow> 'w Handler \<Rightarrow> 'w \<Rightarrow> Request \<Rightarrow> world
     \<Rightarrow> 'w result option" where
  "ValidateJSONSchema fuel W L next x r st =
     (case ReadAll (Body r) of ((buf, err), drained) \<Rightarrow>
        (case err of
           Some e \<Rightarrow>
             Some (Result (http_Error W x (''Failed to read body: '' @ e) StatusBadRequest)
                     (r\<lparr>Body := drained\<rparr>) st Returned)
         | None \<Rightarrow>
             (case validate_loop fuel W L (NewDecoder L buf) x of
                None \<Rightarrow> None
              | Some (Return x') \<Rightarrow> Some (Result x' (r\<lparr>Body := drained\<rparr>) st Returned)
              | Some (Break x') \<Rightarrow> Some (next x' (r\<lparr>Body := nopCloser_NewReader buf\<rparr>) st))))"

subsection \<open>\<^verbatim>\<open>src/unnamed/part_001\<close>, lines 41-101: collect the outcome of every document\<close>

datatype 'w aggregate_exit = Finished int "ValidationResult list" | Aborted 'w

fun aggregate_loop ::
  "nat \<Rightarrow> 'w ResponseWriter \<Rightarrow> 'j library \<Rightarrow> 'j Decoder \<Rightarrow> 'w \<Rightarrow> int \<Rightarrow> ValidationResult list
     \<Rightarrow> 'w aggregate_exit option" where
  "aggregate_loop 0 W L dec x validationErrorCount validationResults = None"
| "aggregate_loop (Suc fuel) W L dec x validationErrorCount validationResults =
     (case Decode dec of ((obj, err), dec') \<Rightarrow>
        if err = Some EOF then Some (Finished validationErrorCount validationResults)
        else
          let (results1, count1) =
                (case err of
                   None \<Rightarrow> (validationResults, validationErrorCount)
                 | Some e \<Rightarrow>
                     (validationResults @
                        [\<lparr>Valid = False, Errors = Messages [''Invalid JSON: '' @ ErrorText e]\<rparr>],
                      validationErrorCount + 1))
          in (case Validate L obj of
                Inl e \<Rightarrow>
                  Some (Aborted (http_Error W x (''Failed to validate: '' @ e)
                                   StatusInternalServerError))
              | Inr validationResult \<Rightarrow>
                  aggregate_loop fuel W L dec' x
                    (if Result_Valid validationResult \<noteq> True then count1 + 1 else count1)
                    (results1 @ [ErrorValidationResult validationResult])))"

text \<open>Lines 89-93: one marshalled result and a newline per entry.\<close>

fun write_results :: "'w ResponseWriter \<Rightarrow> 'j library \<Rightarrow> ValidationResult list \<Rightarrow> 'w \<Rightarrow> 'w" where
  "write_results W L [] x = x"
| "write_results W L (v # vs) x =
     write_results W L vs (snd (Write W (snd (Write W x (MarshalStruct L v))) [CHR 0x0A]))"

definition ValidateJSONSchema_aggregate ::
  "nat \<Rightarrow> 'w ResponseWriter \<Rightarrow> 'j library \<Rightarrow> 'w Handler \<Rightarrow> 'w \<Rightarrow> Request \<Rightarrow> world
     \<Rightarrow> 'w result option" where
  "ValidateJSONSchema_aggregate fuel W L next x r st =
     (case ReadAll (Body r) of ((buf, err), drained) \<Rightarrow>
        (case err of
           Some e \<Rightarrow>
             Some (Result (http_Error W x (''Failed to read body: '' @ e) StatusBadRequest)
                     (r\<lparr>Body := drained\<rparr>) st Returned)
         | None \<Rightarrow>
             (case aggregate_loop fuel W L (NewDecoder L buf) x 0 [] of
                None \<Rightarrow> None
              | Some (Aborted x') \<Rightarrow> Some (Result x' (r\<lparr>Body := drained\<rparr>) st Returned)
              | Some (Finished validationErrorCount validationResults) \<Rightarrow>
                  if validationErrorCount > 0
                  then Some (Result (write_results W L validationResults
                                       (WriteHeader W x StatusBadRequest))
                               (r\<lparr>Body := drained\<rparr>) st Returned)
                  else Some (next x (r\<lparr>Body := nopCloser_NewReader buf\<rparr>) st))))"

subsection \<open>\<^verbatim>\<open>src/unnamed/part_001\<close>, lines 137-164: the body as one document\<close>

definition ValidateJSONSchema_single ::
  "'w ResponseWriter \<Rightarrow> 'j library \<Rightarrow> 'w Handler \<Rightarrow> 'w \<Rightarrow> Request \<Rightarrow> world \<Rightarrow> 'w result" where
  "ValidateJSONSchema_single W L next x r st =
     (case ReadAll (Body r) of ((buf, err), drained) \<Rightarrow>
        (case err of
           Some e \<Rightarrow>
             Result (http_Error W x (''Failed to read body: '' @ e) StatusBadRequest)
               (r\<lparr>Body := drained\<rparr>) st Returned
         | None \<Rightarrow>
             (case ValidateString L buf of
                Inl e \<Rightarrow>
                  Result (http_Error W x (''Failed to validate: '' @ e) StatusBadRequest)
                    (r\<lparr>Body := drained\<rparr>) st Returned
              | Inr validationResult \<Rightarrow>
                  if \<not> Result_Valid validationResult
                  then Result (http_Error W x (ValidationResult_MarshalJSON L validationResult)
                                 StatusBadRequest)
                         (r\<lparr>Body := drained\<rparr>) st Returned
                  else next x (r\<lparr>Body := nopCloser_NewReader buf\<rparr>) st)))"

section \<open>Concrete requests, libraries and handlers\<close>

text \<open>
  The inputs of the spec's scenarios, for evaluating the definitions above. The decoder
  and the schema engine are tables of what \<^verbatim>\<open>encoding/json\<close> and
  \<^verbatim>\<open>gojsonschema\<close> return on these bodies: the schema of the scenarios,
  \<^verbatim>\<open>{"type":"object","required":["id"]}\<close>, and the schema \<^verbatim>\<open>{}\<close>, which accepts
  every value. The marshalled text is a stand-in.
\<close>

datatype json = JNumber int | JString string | JObject "(string \<times> json) list"

definition body_id :: bytes where
  \<open>body_id = ''{"id":1}''\<close>

definition body_name :: bytes where
  \<open>body_name = ''{"name":"x"}''\<close>

definition body_id_2 :: bytes where
  \<open>body_id_2 = ''{"id":2}''\<close>

definition body_two_ids :: bytes where
  \<open>body_two_ids = ''{"id":1}{"id":2}''\<close>

definition body_two_names :: bytes where
  \<open>body_two_names = ''{"name":"x"}{"name":"y"}''\<close>

definition body_name_truncated :: bytes where
  \<open>body_name_truncated = ''{"name":"x"}{''\<close>

definition body_truncated :: bytes where
  \<open>body_truncated = ''{''\<close>

definition body_huge_number :: bytes where
  \<open>body_huge_number = ''1e999''\<close>

definition table_NewDecoder :: "bytes \<Rightarrow> json Decoder" where
  "table_NewDecoder b =
     (if b = [] then \<lparr>queue = [], final = EOF\<rparr>
      else if b = body_id then
        \<lparr>queue = [(Some (JObject [(''id'', JNumber 1)]), None)], final = EOF\<rparr>
      else if b = body_id_2 then
        \<lparr>queue = [(Some (JObject [(''id'', JNumber 2)]), None)], final = EOF\<rparr>
      else if b = body_name then
        \<lparr>queue = [(Some (JObject [(''name'', JString ''x'')]), None)], final = EOF\<rparr>
      else if b = body_two_ids then
        \<lparr>queue = [(Some (JObject [(''id'', JNumber 1)]), None),
                  (Some (JObject [(''id'', JNumber 2)]), None)], final = EOF\<rparr>
      else if b = body_two_names then
        \<lparr>queue = [(Some (JObject [(''name'', JString ''x'')]), None),
                  (Some (JObject [(''name'', JString ''y'')]), None)], final = EOF\<rparr>
      else if b = body_huge_number then
        \<lparr>queue = [(None, Some ''json: cannot unmarshal number 1e999 into Go value of type float64'')],
         final = EOF\<rparr>
      else if b = body_name_truncated then
        \<lparr>queue = [(Some (JObject [(''name'', JString ''x'')]), None)],
         final = OtherError ''unexpected EOF''\<rparr>
      else if b = body_truncated then \<lparr>queue = [], final = OtherError ''unexpected EOF''\<rparr>
      else \<lparr>queue = [], final = OtherError ''not in the table''\<rparr>)"

definition missing_id :: ResultError where
  "missing_id = \<lparr>Description = ''id is required'', Details = [(''property'', ''id'')]\<rparr>"

definition not_an_object :: ResultError where
  "not_an_object = \<lparr>Description = ''Invalid type. Expected: object'', Details = [(''expected'', ''object'')]\<rparr>"

definition requires_id :: "json option \<Rightarrow> string + Result" where
  "requires_id obj =
     (case obj of
        Some (JObject kvs) \<Rightarrow> (if map_of kvs ''id'' = None then Inr [missing_id] else Inr [])
      | _ \<Rightarrow> Inr [not_an_object])"

definition accepts_all :: "json option \<Rightarrow> string + Result" where
  "accepts_all obj = Inr []"

text \<open>The string loader decodes the text itself; its decoding error is the engine's error.\<close>

definition via_string :: "(json option \<Rightarrow> string + Result) \<Rightarrow> bytes \<Rightarrow> string + Result" where
  "via_string V b =
     (case Decode (table_NewDecoder b) of
        ((obj, None), _) \<Rightarrow> V obj
      | ((obj, Some e), _) \<Rightarrow> Inl (ErrorText e))"

definition plain_MarshalMap :: "bool \<Rightarrow> string list \<Rightarrow> bytes" where
  "plain_MarshalMap v errs =
     ''valid='' @ (if v then ''true'' else ''false'') @ '' errors='' @ concat (map (\<lambda>e. e @ '';'') errs)"

definition plain_MarshalStruct :: "ValidationResult \<Rightarrow> bytes" where
  "plain_MarshalStruct vr =
     plain_MarshalMap (Valid vr)
       (case Errors vr of
          Messages ms \<Rightarrow> ms
        | DetailsList ds \<Rightarrow> map (\<lambda>d. concat (map (\<lambda>(k, v). k @ ''='' @ v) d)) ds)"

definition scenario_library :: "json library" where
  "scenario_library =
     \<lparr>NewDecoder = table_NewDecoder, Validate = requires_id,
      ValidateString = via_string requires_id,
      MarshalMap = plain_MarshalMap, MarshalStruct = plain_MarshalStruct\<rparr>"

definition permissive_library :: "json library" where
  "permissive_library =
     \<lparr>NewDecoder = table_NewDecoder, Validate = accepts_all,
      ValidateString = via_string accepts_all,
      MarshalMap = plain_MarshalMap, MarshalStruct = plain_MarshalStruct\<rparr>"

text \<open>An engine that fails on the document \<^verbatim>\<open>{"id":2}\<close>.\<close>

definition fails_on_2 :: "json option \<Rightarrow> string + Result" where
  "fails_on_2 obj =
     (if obj = Some (JObject [(''id'', JNumber 2)]) then Inl ''engine failure''
      else requires_id obj)"

definition faulty_library :: "json library" where
  "faulty_library =
     \<lparr>NewDecoder = table_NewDecoder, Validate = fails_on_2,
      ValidateString = via_string fails_on_2,
      MarshalMap = plain_MarshalMap, MarshalStruct = plain_MarshalStruct\<rparr>"

definition post :: "bytes \<Rightarrow> Request" where
  "post b = \<lparr>Body = nopCloser_NewReader b, RemoteAddr = ''10.0.0.1:4242'', Method = ''POST'',
             Proto = ''HTTP/1.1'', RequestURI = ''/items''\<rparr>"

definition quiet :: world where
  "quiet = \<lparr>logged = [], clock = 0\<rparr>"

text \<open>A downstream handler that reads the body it is given and writes it back.\<close>

definition echo :: "response Handler" where
  "echo x r st =
     (case ReadAll (Body r) of
        ((buf, _), drained) \<Rightarrow> Result (snd (response_Write x buf)) (r\<lparr>Body := drained\<rparr>) st Returned)"

definition table_StatusText :: "int \<Rightarrow> string" where
  "table_StatusText c =
     (if c = 200 then ''OK'' else if c = 400 then ''Bad Request''
      else if c = 404 then ''Not Found'' else if c = 500 then ''Internal Server Error''
      else [])"

text \<open>Handlers that panic before writing anything, and after a first write.\<close>

definition boom :: "'w ResponseWriter \<Rightarrow> 'w Handler" where
  "boom W = scripted W [] (Panicked (PanicString ''boom'') ''goroutine 1 [running]'')"

definition partial_then_boom :: "'w ResponseWriter \<Rightarrow> 'w Handler" where
  "partial_then_boom W =
     scripted W [CallWrite ''partial''] (Panicked (PanicString ''boom'') ''goroutine 1 [running]'')"

section \<open>Properties of the response observer\<close>

lemma lr_Write_eq:
  "loggedResponse_Write W l b =
     (fst (Write W (w l) b),
      l\<lparr>status := (if status l = 0 then StatusOK else status l),
        w := snd (Write W (w l) b),
        size := size l + fst (fst (Write W (w l) b))\<rparr>)"
  by (simp add: loggedResponse_Write_def Let_def split: prod.splits)

lemma lr_Write_httplib_eq:
  "loggedResponse_Write_httplib W l b =
     (fst (Write W (w l) b),
      l\<lparr>status := (if status l = 0 then StatusOK else status l),
        body := body l @ b,
        w := snd (Write W (w l) b),
        size := size l + fst (fst (Write W (w l) b))\<rparr>)"
  by (simp add: loggedResponse_Write_httplib_def Let_def split: prod.splits)

lemma observer_w:
  "w (perform (loggedResponse_ops W) cs l) = perform W cs (w l)"
  by (induction cs arbitrary: l rule: explicit_statuses.induct)
     (simp_all add: loggedResponse_ops_def lr_Write_eq loggedResponse_WriteHeader_def)

lemma observer_size:
  "size (perform (loggedResponse_ops W) cs l) = size l + returned_total W cs (w l)"
  by (induction cs arbitrary: l rule: explicit_statuses.induct)
     (simp_all add: loggedResponse_ops_def lr_Write_eq loggedResponse_WriteHeader_def)

lemma observer_status:
  "0 \<notin> set (explicit_statuses cs) \<Longrightarrow>
   status (perform (loggedResponse_ops W) cs l) =
     (if explicit_statuses cs = []
      then (if requested_writes cs = [] then status l
            else if status l = 0 then StatusOK else status l)
      else last (explicit_statuses cs))"
  by (induction cs arbitrary: l rule: explicit_statuses.induct)
     (auto simp add: loggedResponse_ops_def lr_Write_eq loggedResponse_WriteHeader_def)


lemma observer_httplib_w:
  "w (perform (loggedResponse_httplib_ops W) cs l) = perform W cs (w l)"
  by (induction cs arbitrary: l rule: explicit_statuses.induct)
     (simp_all add: loggedResponse_httplib_ops_def lr_Write_httplib_eq loggedResponse_WriteHeader_def)

lemma observer_httplib_size:
  "size (perform (loggedResponse_httplib_ops W) cs l) = size l + returned_total W cs (w l)"
  by (induction cs arbitrary: l rule: explicit_statuses.induct)
     (simp_all add: loggedResponse_httplib_ops_def lr_Write_httplib_eq loggedResponse_WriteHeader_def)

lemma observer_httplib_status:
  "0 \<notin> set (explicit_statuses cs) \<Longrightarrow>
   status (perform (loggedResponse_httplib_ops W) cs l) =
     (if explicit_statuses cs = []
      then (if requested_writes cs = [] then status l
            else if status l = 0 then StatusOK else status l)
      else last (explicit_statuses cs))"
  by (induction cs arbitrary: l rule: explicit_statuses.induct)
     (auto simp add: loggedResponse_httplib_ops_def lr_Write_httplib_eq loggedResponse_WriteHeader_def)

lemma observer_httplib_body:
  "body (perform (loggedResponse_httplib_ops W) cs l) = body l @ concat (requested_writes cs)"
  by (induction cs arbitrary: l rule: explicit_statuses.induct)
     (simp_all add: loggedResponse_httplib_ops_def lr_Write_httplib_eq loggedResponse_WriteHeader_def)

lemma returned_total_complete:
  "(\<And>x b. fst (fst (Write W x b)) = int (length b)) \<Longrightarrow>
   returned_total W cs x = requested_total cs"
  by (induction cs arbitrary: x rule: explicit_statuses.induct)
     (simp_all add: requested_total_def)

lemma response_Write_complete: "fst (fst (response_Write x b)) = int (length b)"
  by (simp add: response_Write_def Let_def)

text \<open>
  Claim C10. \<^verbatim>\<open>Write\<close> of the observer returns exactly the count and the error that
  the wrapped writer returned, adds that count (not the length of the slice) to
  \<open>size\<close>, and the wrapped writer has received one \<^verbatim>\<open>Write\<close> of exactly the bytes
  \<open>b\<close>: its state is the one its own \<^verbatim>\<open>Write\<close> of \<open>b\<close> leaves. In both revisions, for
  every wrapped writer.
\<close>

theorem loggedResponse_Write_passes_through:
  "fst (loggedResponse_Write W l b) = fst (Write W (w l) b) \<and>
   size (snd (loggedResponse_Write W l b)) = size l + fst (fst (Write W (w l) b)) \<and>
   w (snd (loggedResponse_Write W l b)) = snd (Write W (w l) b) \<and>
   fst (loggedResponse_Write_httplib W l' b) = fst (Write W (w l') b) \<and>
   size (snd (loggedResponse_Write_httplib W l' b)) = size l' + fst (fst (Write W (w l') b)) \<and>
   w (snd (loggedResponse_Write_httplib W l' b)) = snd (Write W (w l') b)"
  by (simp add: lr_Write_eq lr_Write_httplib_eq)

text \<open>A short write of 3 of 5 bytes: the observer returns 3 and the error and records 3.\<close>

theorem loggedResponse_Write_passes_through_witness:
  "fst (loggedResponse_Write limited_ops (new_loggedResponse \<lparr>room = 3, accepted = []\<rparr> 0) ''hello'')
     = (3, Some ''short write'') \<and>
   size (snd (loggedResponse_Write limited_ops (new_loggedResponse \<lparr>room = 3, accepted = []\<rparr> 0) ''hello''))
     = 3 \<and>
   accepted (w (snd (loggedResponse_Write limited_ops
                      (new_loggedResponse \<lparr>room = 3, accepted = []\<rparr> 0) ''hello''))) = ''hel''"
  using loggedResponse_Write_passes_through
          [of limited_ops "new_loggedResponse \<lparr>room = 3, accepted = []\<rparr> 0" "''hello''"]
  by (simp add: limited_ops_def limited_Write_def new_loggedResponse_def)

text \<open>
  Claim C9, as the code has it. After a handler has performed the calls \<open>cs\<close> on a new
  observer, \<open>size\<close> is the sum of the counts the wrapped writer returned, which is
  \<open>sum(len(bi))\<close> when every write of the wrapped writer is complete; \<open>status\<close> is the
  status of the last call of \<^verbatim>\<open>WriteHeader\<close> (statuses other than 0), 200 when
  \<^verbatim>\<open>WriteHeader\<close> was never called and something was written, and 0 when nothing was
  called.
\<close>

theorem observer_records_returned_counts_and_last_status:
  "0 \<notin> set (explicit_statuses cs) \<Longrightarrow>
   size (perform (loggedResponse_ops W) cs (new_loggedResponse x t)) = returned_total W cs x \<and>
   size (perform (loggedResponse_httplib_ops W) cs (new_loggedResponse_httplib x t))
     = returned_total W cs x \<and>
   ((\<forall>y b. fst (fst (Write W y b)) = int (length b)) \<longrightarrow>
      returned_total W cs x = requested_total cs) \<and>
   status (perform (loggedResponse_ops W) cs (new_loggedResponse x t)) =
     (if explicit_statuses cs = [] then (if requested_writes cs = [] then 0 else StatusOK)
      else last (explicit_statuses cs)) \<and>
   status (perform (loggedResponse_httplib_ops W) cs (new_loggedResponse_httplib x t)) =
     (if explicit_statuses cs = [] then (if requested_writes cs = [] then 0 else StatusOK)
      else last (explicit_statuses cs))"
  by (simp add: observer_size observer_httplib_size observer_status observer_httplib_status
        returned_total_complete new_loggedResponse_def new_loggedResponse_httplib_def)

theorem observer_records_returned_counts_and_last_status_witness:
  "0 \<notin> set (explicit_statuses [CallWriteHeader 404, CallWrite ''not '', CallWrite ''found'']) \<and>
   size (perform (loggedResponse_ops response_ops)
           [CallWriteHeader 404, CallWrite ''not '', CallWrite ''found'']
           (new_loggedResponse new_response 0)) = 9 \<and>
   requested_total [CallWriteHeader 404, CallWrite ''not '', CallWrite ''found''] = 9 \<and>
   status (perform (loggedResponse_ops response_ops)
             [CallWriteHeader 404, CallWrite ''not '', CallWrite ''found'']
             (new_loggedResponse new_response 0)) = 404"
proof -
  have h: "0 \<notin> set (explicit_statuses [CallWriteHeader 404, CallWrite ''not '', CallWrite ''found''])"
    by simp
  have c: "\<forall>y b. fst (fst (Write response_ops y b)) = int (length b)"
    by (simp add: response_ops_def response_Write_complete)
  show ?thesis
    using h c observer_records_returned_counts_and_last_status
                [OF h, of response_ops new_response 0]
    by (simp add: requested_total_def)
qed

text \<open>
  The recorded status is not the first status set: after \<^verbatim>\<open>WriteHeader(404)\<close> and
  \<^verbatim>\<open>WriteHeader(500)\<close> the observer holds 500 while the response carries 404; and
  after a write followed by \<^verbatim>\<open>WriteHeader(404)\<close> it holds 404 while the response
  carries 200.
\<close>

theorem first_status_counterexample:
  "status (perform (loggedResponse_ops response_ops) [CallWriteHeader 404, CallWriteHeader 500]
             (new_loggedResponse new_response 0)) = 500 \<and>
   hd (explicit_statuses [CallWriteHeader 404, CallWriteHeader 500]) = 404 \<and>
   statusCode (w (perform (loggedResponse_ops response_ops)
                    [CallWriteHeader 404, CallWriteHeader 500]
                    (new_loggedResponse new_response 0))) = 404 \<and>
   status (perform (loggedResponse_ops response_ops) [CallWrite ''x'', CallWriteHeader 404]
             (new_loggedResponse new_response 0)) = 404 \<and>
   statusCode (w (perform (loggedResponse_ops response_ops) [CallWrite ''x'', CallWriteHeader 404]
                    (new_loggedResponse new_response 0))) = 200"
  by (simp add: loggedResponse_ops_def lr_Write_eq loggedResponse_WriteHeader_def
        new_loggedResponse_def new_response_def response_ops_def response_Write_def
        response_WriteHeader_def Let_def)

section \<open>Properties of Recover, LogRequest and RunHTTP\<close>

lemma Recover_returns: "outcome (Recover W h x r st) = Returned"
  by (simp add: Recover_def split: result.splits outcome.splits)

lemma Recover_httplib_returns: "outcome (Recover_httplib W h x r st) = Returned"
  by (simp add: Recover_httplib_def Let_def split: result.splits outcome.splits)

lemma Recover_panic:
  "h x r st = Result x' r' st' (Panicked v tb) \<Longrightarrow>
   Recover W h x r st =
     Result (WriteHeader W x' StatusInternalServerError) r'
       (log_entry ErrorLevel [(''traceback'', Str tb)] ''Unhandled panic'' st') Returned"
  by (simp add: Recover_def)

lemma Recover_httplib_panic:
  "h x r st = Result x' r' st' (Panicked v tb) \<Longrightarrow>
   Recover_httplib W h x r st =
     Result (http_Error W x'
               (''Unhandled panic: '' @ (case v of PanicString s \<Rightarrow> s | PanicOther ty \<Rightarrow> ty)
                  @ '' '' @ [CHR 0x0A] @ take 4096 tb)
               StatusInternalServerError) r'
       (log_entry ErrorLevel [(''traceback'', Str (take 4096 tb))]
          (''Unhandled panic: '' @ (case v of PanicString s \<Rightarrow> s | PanicOther ty \<Rightarrow> ty)) st')
       Returned"
  by (simp add: Recover_httplib_def Let_def)

lemma Recover_normal:
  "outcome (h x r st) = Returned \<Longrightarrow> Recover W h x r st = h x r st"
  by (cases "h x r st") (simp add: Recover_def)

lemma Recover_httplib_normal:
  "outcome (h x r st) = Returned \<Longrightarrow> Recover_httplib W h x r st = h x r st"
  by (cases "h x r st") (simp add: Recover_httplib_def)

lemma http_Error_response:
  "statusCode (http_Error response_ops x msg c) = (if wroteHeader x then statusCode x else c)"
  "wroteHeader (http_Error response_ops x msg c)"
  "sent (http_Error response_ops x msg c) = sent x @ msg @ [CHR 0x0A]"
  by (simp_all add: http_Error_def response_ops_def response_HeaderSet_def
        response_WriteHeader_def response_Write_def Let_def)

lemma response_WriteHeader_status:
  "statusCode (response_WriteHeader x c) = (if wroteHeader x then statusCode x else c)"
  "wroteHeader (response_WriteHeader x c)"
  "sent (response_WriteHeader x c) = sent x"
  by (simp_all add: response_WriteHeader_def)

lemma LogRequest_panic:
  "h (new_loggedResponse x (clock st)) r st = Result lw r' st' (Panicked v tb) \<Longrightarrow>
   LogRequest T h x r st = Result (w lw) r' st' (Panicked v tb)"
  by (simp add: LogRequest_def)

lemma LogRequest_httplib_panic:
  "h (new_loggedResponse_httplib x (clock st)) r st = Result lw r' st' (Panicked v tb) \<Longrightarrow>
   LogRequest_httplib T h x r st = Result (w lw) r' st' (Panicked v tb)"
  by (simp add: LogRequest_httplib_def)

lemma LogRequest_returns:
  "outcome (h (new_loggedResponse x (clock st)) r st) = Returned \<Longrightarrow>
   outcome (LogRequest T h x r st) = Returned"
  by (cases "h (new_loggedResponse x (clock st)) r st")
     (simp add: LogRequest_def Let_def split: prod.splits)

lemma LogRequest_httplib_returns:
  "outcome (h (new_loggedResponse_httplib x (clock st)) r st) = Returned \<Longrightarrow>
   outcome (LogRequest_httplib T h x r st) = Returned"
  by (cases "h (new_loggedResponse_httplib x (clock st)) r st")
     (simp add: LogRequest_httplib_def Let_def split: prod.splits)

lemma RunHTTP_handler_returns: "outcome (RunHTTP_handler T W h x r st) = Returned"
  by (simp add: RunHTTP_handler_def LogRequest_returns Recover_returns)

lemma RunHTTP_handler_httplib_returns: "outcome (RunHTTP_handler_httplib T W h x r st) = Returned"
  by (simp add: RunHTTP_handler_httplib_def LogRequest_httplib_returns Recover_httplib_returns)

lemma RunHTTP_handler_panic_log:
  "h (new_loggedResponse x (clock st)) r st = Result lw r' st' (Panicked v tb) \<Longrightarrow>
   logged (world (RunHTTP_handler T W h x r st)) =
     logged st' @
       [\<lparr>Level = ErrorLevel, Message = ''Unhandled panic'', Data = [(''traceback'', Str tb)]\<rparr>,
        \<lparr>Level = ErrorLevel,
         Message = T StatusInternalServerError @ '': '' @ remaining (Body r'),
         Data = request_fields (lw\<lparr>status := StatusInternalServerError\<rparr>) r' st'\<rparr>]"
  by (simp add: RunHTTP_handler_def LogRequest_def Recover_panic Let_def ReadAll_def
        log_entry_def loggedResponse_ops_def loggedResponse_WriteHeader_def request_fields_def
        split: prod.splits)

lemma http_Error_observer_httplib:
  "status (http_Error (loggedResponse_httplib_ops W) lg msg c) = (if c = 0 then StatusOK else c)"
  "body (http_Error (loggedResponse_httplib_ops W) lg msg c) = body lg @ msg @ [CHR 0x0A]"
  "w (http_Error (loggedResponse_httplib_ops W) lg msg c) = http_Error W (w lg) msg c"
  by (simp_all add: http_Error_def loggedResponse_httplib_ops_def lr_Write_httplib_eq
        loggedResponse_WriteHeader_def loggedResponse_HeaderSet_def Let_def)

lemma RunHTTP_handler_httplib_panic:
  "g (new_loggedResponse_httplib x (clock st)) r st = Result lg r2 st2 (Panicked v2 tb2) \<Longrightarrow>
   RunHTTP_handler_httplib T W g x r st =
     Result
       (w (http_Error (loggedResponse_httplib_ops W) lg
             (''Unhandled panic: '' @ (case v2 of PanicString s \<Rightarrow> s | PanicOther ty \<Rightarrow> ty)
                @ '' '' @ [CHR 0x0A] @ take 4096 tb2)
             StatusInternalServerError))
       r2
       (st2\<lparr>logged := logged st2 @
          [\<lparr>Level = ErrorLevel,
            Message = ''Unhandled panic: '' @
                        (case v2 of PanicString s \<Rightarrow> s | PanicOther ty \<Rightarrow> ty),
            Data = [(''traceback'', Str (take 4096 tb2))]\<rparr>,
           \<lparr>Level = ErrorLevel,
            Message = T StatusInternalServerError @ [CHR 0x0A] @
                        body (http_Error (loggedResponse_httplib_ops W) lg
                                (''Unhandled panic: '' @
                                   (case v2 of PanicString s \<Rightarrow> s | PanicOther ty \<Rightarrow> ty)
                                   @ '' '' @ [CHR 0x0A] @ take 4096 tb2)
                                StatusInternalServerError),
            Data = request_fields
                     (http_Error (loggedResponse_httplib_ops W) lg
                        (''Unhandled panic: '' @
                           (case v2 of PanicString s \<Rightarrow> s | PanicOther ty \<Rightarrow> ty)
                           @ '' '' @ [CHR 0x0A] @ take 4096 tb2)
                        StatusInternalServerError)
                     r2 st2\<rparr>]\<rparr>)
       Returned"
  by (simp add: RunHTTP_handler_httplib_def LogRequest_httplib_def Recover_httplib_panic
        Let_def http_Error_observer_httplib log_entry_def request_fields_def)

text \<open>
  Claim C7, as the code has it. When the handler wrapped by \<^verbatim>\<open>Recover\<close> panics, the
  call of the middleware returns normally (the panic does not leave it) and one entry
  at error level with the stack trace in the field \<^verbatim>\<open>traceback\<close> is logged, in both
  revisions. The response carries status 500 if the handler had not written the header
  before it panicked; otherwise it keeps the status already written. A later request
  whose handler returns is served exactly as by the handler itself, in any state of the
  world.
\<close>

theorem Recover_turns_panic_into_500:
  "h x r st = Result x' r' st' (Panicked v tb) \<Longrightarrow>
   outcome (Recover response_ops h x r st) = Returned \<and>
   outcome (Recover_httplib response_ops h x r st) = Returned \<and>
   logged (world (Recover response_ops h x r st)) =
     logged st' @ [\<lparr>Level = ErrorLevel, Message = ''Unhandled panic'',
                    Data = [(''traceback'', Str tb)]\<rparr>] \<and>
   logged (world (Recover_httplib response_ops h x r st)) =
     logged st' @ [\<lparr>Level = ErrorLevel,
                    Message = ''Unhandled panic: '' @
                      (case v of PanicString s \<Rightarrow> s | PanicOther ty \<Rightarrow> ty),
                    Data = [(''traceback'', Str (take 4096 tb))]\<rparr>] \<and>
   wroteHeader (writer (Recover response_ops h x r st)) \<and>
   wroteHeader (writer (Recover_httplib response_ops h x r st)) \<and>
   statusCode (writer (Recover response_ops h x r st)) =
     (if wroteHeader x' then statusCode x' else StatusInternalServerError) \<and>
   statusCode (writer (Recover_httplib response_ops h x r st)) =
     (if wroteHeader x' then statusCode x' else StatusInternalServerError) \<and>
   (\<forall>h2 x2 r2 st2. outcome (h2 x2 r2 st2) = Returned \<longrightarrow>
      Recover response_ops h2 x2 r2 st2 = h2 x2 r2 st2 \<and>
      Recover_httplib response_ops h2 x2 r2 st2 = h2 x2 r2 st2)"
  by (simp add: Recover_panic Recover_httplib_panic Recover_normal Recover_httplib_normal
        http_Error_response log_entry_def)
     (simp add: response_ops_def response_WriteHeader_status)

theorem Recover_turns_panic_into_500_witness:
  "boom response_ops new_response (post body_id) quiet =
     Result new_response (post body_id) quiet
       (Panicked (PanicString ''boom'') ''goroutine 1 [running]'') \<and>
   outcome (Recover response_ops (boom response_ops) new_response (post body_id) quiet) = Returned \<and>
   statusCode (writer (Recover response_ops (boom response_ops) new_response (post body_id) quiet))
     = 500 \<and>
   logged (world (Recover response_ops (boom response_ops) new_response (post body_id) quiet)) =
     [\<lparr>Level = ErrorLevel, Message = ''Unhandled panic'',
       Data = [(''traceback'', Str ''goroutine 1 [running]'')]\<rparr>] \<and>
   Recover response_ops echo new_response (post body_id)
       (world (Recover response_ops (boom response_ops) new_response (post body_id) quiet)) =
     echo new_response (post body_id)
       (world (Recover response_ops (boom response_ops) new_response (post body_id) quiet))"
proof -
  have h: "boom response_ops new_response (post body_id) quiet =
     Result new_response (post body_id) quiet
       (Panicked (PanicString ''boom'') ''goroutine 1 [running]'')"
    by (simp add: boom_def scripted_def)
  have e: "outcome (echo x2 r2 st2) = Returned" for x2 r2 st2
    by (simp add: echo_def ReadAll_def)
  show ?thesis
    using h e Recover_turns_panic_into_500
      [of "boom response_ops" new_response "post body_id" quiet new_response "post body_id" quiet
          "PanicString ''boom''" "''goroutine 1 [running]''"]
    by (simp add: new_response_def quiet_def)
qed

text \<open>
  A handler that writes a part of its response and then panics: the response keeps
  status 200 in both revisions.
\<close>

theorem Recover_after_write_counterexample:
  "outcome (partial_then_boom response_ops new_response (post body_id) quiet) =
     Panicked (PanicString ''boom'') ''goroutine 1 [running]'' \<and>
   statusCode (writer (Recover response_ops (partial_then_boom response_ops)
                         new_response (post body_id) quiet)) = 200 \<and>
   statusCode (writer (Recover_httplib response_ops (partial_then_boom response_ops)
                         new_response (post body_id) quiet)) = 200"
  by (simp add: partial_then_boom_def scripted_def Recover_def Recover_httplib_def
        http_Error_def response_HeaderSet_def response_ops_def response_WriteHeader_def
        response_Write_def new_response_def Let_def)

text \<open>
  Claim C8, as the code has it, for \<^verbatim>\<open>src/web.go\<close> (handler \<open>h\<close>) and for
  \<^verbatim>\<open>src/unnamed/part_000\<close>, lines 1-116 (handler \<open>g\<close>). The handler that
  \<^verbatim>\<open>RunHTTP\<close> serves is \<^verbatim>\<open>LogRequest(Recover(h))\<close>: logging is the outer wrapper
  and recovery the wrapper next to the application handler. It always returns normally.
  When the application handler panics, \<^verbatim>\<open>Recover\<close> writes status 500 through the
  observer (in part_000 by \<^verbatim>\<open>http.Error\<close>) and logs the panic, and
  \<^verbatim>\<open>LogRequest\<close> then logs the request at error level with the observer's status
  500: the log gains exactly these two entries, in this order. \<^verbatim>\<open>LogRequest\<close>
  itself stops no panic: one that reaches it passes through.
\<close>

theorem RunHTTP_logging_wraps_recovery:
  "RunHTTP_handler T W h = LogRequest T (Recover (loggedResponse_ops W) h) \<and>
   RunHTTP_handler_httplib T W g =
     LogRequest_httplib T (Recover_httplib (loggedResponse_httplib_ops W) g) \<and>
   outcome (RunHTTP_handler T W h x r st) = Returned \<and>
   outcome (RunHTTP_handler_httplib T W g x r st) = Returned \<and>
   (h (new_loggedResponse x (clock st)) r st = Result lw r' st' (Panicked v tb) \<longrightarrow>
      LogRequest T h x r st = Result (w lw) r' st' (Panicked v tb) \<and>
      writer (RunHTTP_handler T W h x r st) = WriteHeader W (w lw) StatusInternalServerError \<and>
      logged (world (RunHTTP_handler T W h x r st)) =
        logged st' @
          [\<lparr>Level = ErrorLevel, Message = ''Unhandled panic'', Data = [(''traceback'', Str tb)]\<rparr>,
           \<lparr>Level = ErrorLevel,
            Message = T StatusInternalServerError @ '': '' @ remaining (Body r'),
            Data = request_fields (lw\<lparr>status := StatusInternalServerError\<rparr>) r' st'\<rparr>]) \<and>
   (g (new_loggedResponse_httplib x (clock st)) r st = Result lg r2 st2 (Panicked v2 tb2) \<longrightarrow>
      LogRequest_httplib T g x r st = Result (w lg) r2 st2 (Panicked v2 tb2) \<and>
      writer (RunHTTP_handler_httplib T W g x r st) =
        http_Error W (w lg)
          (''Unhandled panic: '' @ (case v2 of PanicString s \<Rightarrow> s | PanicOther ty \<Rightarrow> ty)
             @ '' '' @ [CHR 0x0A] @ take 4096 tb2)
          StatusInternalServerError \<and>
      status (http_Error (loggedResponse_httplib_ops W) lg
                (''Unhandled panic: '' @ (case v2 of PanicString s \<Rightarrow> s | PanicOther ty \<Rightarrow> ty)
                   @ '' '' @ [CHR 0x0A] @ take 4096 tb2)
                StatusInternalServerError) = StatusInternalServerError \<and>
      logged (world (RunHTTP_handler_httplib T W g x r st)) =
        logged st2 @
          [\<lparr>Level = ErrorLevel,
            Message = ''Unhandled panic: '' @
                        (case v2 of PanicString s \<Rightarrow> s | PanicOther ty \<Rightarrow> ty),
            Data = [(''traceback'', Str (take 4096 tb2))]\<rparr>,
           \<lparr>Level = ErrorLevel,
            Message = T StatusInternalServerError @ [CHR 0x0A] @ body lg @
                        ''Unhandled panic: '' @
                        (case v2 of PanicString s \<Rightarrow> s | PanicOther ty \<Rightarrow> ty)
                        @ '' '' @ [CHR 0x0A] @ take 4096 tb2 @ [CHR 0x0A],
            Data = request_fields
                     (http_Error (loggedResponse_httplib_ops W) lg
                        (''Unhandled panic: '' @
                           (case v2 of PanicString s \<Rightarrow> s | PanicOther ty \<Rightarrow> ty)
                           @ '' '' @ [CHR 0x0A] @ take 4096 tb2)
                        StatusInternalServerError)
                     r2 st2\<rparr>])"
proof (intro conjI impI)
  show "RunHTTP_handler T W h = LogRequest T (Recover (loggedResponse_ops W) h)"
    by (simp add: RunHTTP_handler_def)
  show "RunHTTP_handler_httplib T W g =
     LogRequest_httplib T (Recover_httplib (loggedResponse_httplib_ops W) g)"
    by (simp add: RunHTTP_handler_httplib_def)
  show "outcome (RunHTTP_handler T W h x r st) = Returned"
    by (rule RunHTTP_handler_returns)
  show "outcome (RunHTTP_handler_httplib T W g x r st) = Returned"
    by (rule RunHTTP_handler_httplib_returns)
next
  assume p: "h (new_loggedResponse x (clock st)) r st = Result lw r' st' (Panicked v tb)"
  show "LogRequest T h x r st = Result (w lw) r' st' (Panicked v tb)"
    using p by (rule LogRequest_panic)
  show "writer (RunHTTP_handler T W h x r st) = WriteHeader W (w lw) StatusInternalServerError"
    using p
    by (simp add: RunHTTP_handler_def LogRequest_def Recover_panic Let_def loggedResponse_ops_def
          loggedResponse_WriteHeader_def split: prod.splits)
  show "logged (world (RunHTTP_handler T W h x r st)) =
        logged st' @
          [\<lparr>Level = ErrorLevel, Message = ''Unhandled panic'', Data = [(''traceback'', Str tb)]\<rparr>,
           \<lparr>Level = ErrorLevel,
            Message = T StatusInternalServerError @ '': '' @ remaining (Body r'),
            Data = request_fields (lw\<lparr>status := StatusInternalServerError\<rparr>) r' st'\<rparr>]"
    using p by (rule RunHTTP_handler_panic_log)
next
  assume p: "g (new_loggedResponse_httplib x (clock st)) r st = Result lg r2 st2 (Panicked v2 tb2)"
  have e: "RunHTTP_handler_httplib T W g x r st =
     Result
       (w (http_Error (loggedResponse_httplib_ops W) lg
             (''Unhandled panic: '' @ (case v2 of PanicString s \<Rightarrow> s | PanicOther ty \<Rightarrow> ty)
                @ '' '' @ [CHR 0x0A] @ take 4096 tb2)
             StatusInternalServerError))
       r2
       (st2\<lparr>logged := logged st2 @
          [\<lparr>Level = ErrorLevel,
            Message = ''Unhandled panic: '' @
                        (case v2 of PanicString s \<Rightarrow> s | PanicOther ty \<Rightarrow> ty),
            Data = [(''traceback'', Str (take 4096 tb2))]\<rparr>,
           \<lparr>Level = ErrorLevel,
            Message = T StatusInternalServerError @ [CHR 0x0A] @
                        body (http_Error (loggedResponse_httplib_ops W) lg
                                (''Unhandled panic: '' @
                                   (case v2 of PanicString s \<Rightarrow> s | PanicOther ty \<Rightarrow> ty)
                                   @ '' '' @ [CHR 0x0A] @ take 4096 tb2)
                                StatusInternalServerError),
            Data = request_fields
                     (http_Error (loggedResponse_httplib_ops W) lg
                        (''Unhandled panic: '' @
                           (case v2 of PanicString s \<Rightarrow> s | PanicOther ty \<Rightarrow> ty)
                           @ '' '' @ [CHR 0x0A] @ take 4096 tb2)
                        StatusInternalServerError)
                     r2 st2\<rparr>]\<rparr>)
       Returned"
    using p by (rule RunHTTP_handler_httplib_panic)
  show "LogRequest_httplib T g x r st = Result (w lg) r2 st2 (Panicked v2 tb2)"
    using p by (rule LogRequest_httplib_panic)
  show "writer (RunHTTP_handler_httplib T W g x r st) =
        http_Error W (w lg)
          (''Unhandled panic: '' @ (case v2 of PanicString s \<Rightarrow> s | PanicOther ty \<Rightarrow> ty)
             @ '' '' @ [CHR 0x0A] @ take 4096 tb2)
          StatusInternalServerError"
    by (simp add: e http_Error_observer_httplib)
  show "status (http_Error (loggedResponse_httplib_ops W) lg
                (''Unhandled panic: '' @ (case v2 of PanicString s \<Rightarrow> s | PanicOther ty \<Rightarrow> ty)
                   @ '' '' @ [CHR 0x0A] @ take 4096 tb2)
                StatusInternalServerError) = StatusInternalServerError"
    by (simp add: http_Error_observer_httplib)
  show "logged (world (RunHTTP_handler_httplib T W g x r st)) =
        logged st2 @
          [\<lparr>Level = ErrorLevel,
            Message = ''Unhandled panic: '' @
                        (case v2 of PanicString s \<Rightarrow> s | PanicOther ty \<Rightarrow> ty),
            Data = [(''traceback'', Str (take 4096 tb2))]\<rparr>,
           \<lparr>Level = ErrorLevel,
            Message = T StatusInternalServerError @ [CHR 0x0A] @ body lg @
                        ''Unhandled panic: '' @
                        (case v2 of PanicString s \<Rightarrow> s | PanicOther ty \<Rightarrow> ty)
                        @ '' '' @ [CHR 0x0A] @ take 4096 tb2 @ [CHR 0x0A],
            Data = request_fields
                     (http_Error (loggedResponse_httplib_ops W) lg
                        (''Unhandled panic: '' @
                           (case v2 of PanicString s \<Rightarrow> s | PanicOther ty \<Rightarrow> ty)
                           @ '' '' @ [CHR 0x0A] @ take 4096 tb2)
                        StatusInternalServerError)
                     r2 st2\<rparr>]"
    by (simp add: e http_Error_observer_httplib)
qed

theorem RunHTTP_logging_wraps_recovery_witness:
  "boom (loggedResponse_ops response_ops) (new_loggedResponse new_response (clock quiet))
       (post body_id) quiet =
     Result (new_loggedResponse new_response 0) (post body_id) quiet
       (Panicked (PanicString ''boom'') ''goroutine 1 [running]'') \<and>
   boom (loggedResponse_httplib_ops response_ops)
       (new_loggedResponse_httplib new_response (clock quiet)) (post body_id) quiet =
     Result (new_loggedResponse_httplib new_response 0) (post body_id) quiet
       (Panicked (PanicString ''boom'') ''goroutine 1 [running]'') \<and>
   outcome (RunHTTP_handler table_StatusText response_ops (boom (loggedResponse_ops response_ops))
              new_response (post body_id) quiet) = Returned \<and>
   statusCode (writer (RunHTTP_handler table_StatusText response_ops
                         (boom (loggedResponse_ops response_ops))
                         new_response (post body_id) quiet)) = 500 \<and>
   map Message (logged (world (RunHTTP_handler table_StatusText response_ops
                          (boom (loggedResponse_ops response_ops))
                          new_response (post body_id) quiet))) =
     [''Unhandled panic'', ''Internal Server Error: '' @ body_id] \<and>
   outcome (RunHTTP_handler_httplib table_StatusText response_ops
              (boom (loggedResponse_httplib_ops response_ops))
              new_response (post body_id) quiet) = Returned \<and>
   statusCode (writer (RunHTTP_handler_httplib table_StatusText response_ops
                         (boom (loggedResponse_httplib_ops response_ops))
                         new_response (post body_id) quiet)) = 500 \<and>
   map Message (logged (world (RunHTTP_handler_httplib table_StatusText response_ops
                          (boom (loggedResponse_httplib_ops response_ops))
                          new_response (post body_id) quiet))) =
     [''Unhandled panic: boom'',
      ''Internal Server Error'' @ [CHR 0x0A] @ ''Unhandled panic: boom '' @ [CHR 0x0A] @
        ''goroutine 1 [running]'' @ [CHR 0x0A]]"
proof -
  have h: "boom (loggedResponse_ops response_ops) (new_loggedResponse new_response (clock quiet))
       (post body_id) quiet =
     Result (new_loggedResponse new_response 0) (post body_id) quiet
       (Panicked (PanicString ''boom'') ''goroutine 1 [running]'')"
    by (simp add: boom_def scripted_def quiet_def)
  have g: "boom (loggedResponse_httplib_ops response_ops)
       (new_loggedResponse_httplib new_response (clock quiet)) (post body_id) quiet =
     Result (new_loggedResponse_httplib new_response 0) (post body_id) quiet
       (Panicked (PanicString ''boom'') ''goroutine 1 [running]'')"
    by (simp add: boom_def scripted_def quiet_def)
  note t = RunHTTP_logging_wraps_recovery
      [of table_StatusText response_ops "boom (loggedResponse_ops response_ops)"
          "boom (loggedResponse_httplib_ops response_ops)"
          new_response "post body_id" quiet "new_loggedResponse new_response 0"
          "post body_id" quiet "PanicString ''boom''" "''goroutine 1 [running]''"
          "new_loggedResponse_httplib new_response 0"
          "post body_id" quiet "PanicString ''boom''" "''goroutine 1 [running]''"]
  from t have o: "outcome (RunHTTP_handler table_StatusText response_ops
              (boom (loggedResponse_ops response_ops)) new_response (post body_id) quiet) = Returned"
    by blast
  from t have o2: "outcome (RunHTTP_handler_httplib table_StatusText response_ops
              (boom (loggedResponse_httplib_ops response_ops)) new_response (post body_id) quiet)
            = Returned"
    by blast
  from t h have wr: "writer (RunHTTP_handler table_StatusText response_ops
              (boom (loggedResponse_ops response_ops)) new_response (post body_id) quiet) =
       WriteHeader response_ops (w (new_loggedResponse new_response 0)) StatusInternalServerError"
    by blast
  from t h have lg: "logged (world (RunHTTP_handler table_StatusText response_ops
              (boom (loggedResponse_ops response_ops)) new_response (post body_id) quiet)) =
       logged quiet @
          [\<lparr>Level = ErrorLevel, Message = ''Unhandled panic'',
            Data = [(''traceback'', Str ''goroutine 1 [running]'')]\<rparr>,
           \<lparr>Level = ErrorLevel,
            Message = table_StatusText StatusInternalServerError @ '': '' @
                        remaining (Body (post body_id)),
            Data = request_fields ((new_loggedResponse new_response 0)
                                     \<lparr>status := StatusInternalServerError\<rparr>)
                     (post body_id) quiet\<rparr>]"
    by blast
  from t g have wr2: "writer (RunHTTP_handler_httplib table_StatusText response_ops
              (boom (loggedResponse_httplib_ops response_ops)) new_response (post body_id) quiet) =
       http_Error response_ops (w (new_loggedResponse_httplib new_response 0))
          (''Unhandled panic: '' @
             (case PanicString ''boom'' of PanicString s \<Rightarrow> s | PanicOther ty \<Rightarrow> ty)
             @ '' '' @ [CHR 0x0A] @ take 4096 ''goroutine 1 [running]'')
          StatusInternalServerError"
    by blast
  from t g have lg2: "logged (world (RunHTTP_handler_httplib table_StatusText response_ops
              (boom (loggedResponse_httplib_ops response_ops)) new_response (post body_id) quiet)) =
        logged quiet @
          [\<lparr>Level = ErrorLevel,
            Message = ''Unhandled panic: '' @
                        (case PanicString ''boom'' of PanicString s \<Rightarrow> s | PanicOther ty \<Rightarrow> ty),
            Data = [(''traceback'', Str (take 4096 ''goroutine 1 [running]''))]\<rparr>,
           \<lparr>Level = ErrorLevel,
            Message = table_StatusText StatusInternalServerError @ [CHR 0x0A] @
                        body (new_loggedResponse_httplib new_response 0) @
                        ''Unhandled panic: '' @
                        (case PanicString ''boom'' of PanicString s \<Rightarrow> s | PanicOther ty \<Rightarrow> ty)
                        @ '' '' @ [CHR 0x0A] @ take 4096 ''goroutine 1 [running]'' @ [CHR 0x0A],
            Data = request_fields
                     (http_Error (loggedResponse_httplib_ops response_ops)
                        (new_loggedResponse_httplib new_response 0)
                        (''Unhandled panic: '' @
                           (case PanicString ''boom'' of PanicString s \<Rightarrow> s
                            | PanicOther ty \<Rightarrow> ty)
                           @ '' '' @ [CHR 0x0A] @ take 4096 ''goroutine 1 [running]'')
                        StatusInternalServerError)
                     (post body_id) quiet\<rparr>]"
    by blast
  show ?thesis
    unfolding o o2 wr lg wr2 lg2
    using h g
    by (simp add: new_loggedResponse_def new_loggedResponse_httplib_def response_ops_def
          response_WriteHeader_def http_Error_def response_HeaderSet_def response_Write_def
          Let_def new_response_def quiet_def table_StatusText_def post_def nopCloser_NewReader_def)
qed

text \<open>
  With recovery around logging the request would not be logged when the handler
  panics; the handler of \<^verbatim>\<open>RunHTTP\<close> logs it, in both revisions.
\<close>

theorem RunHTTP_order_counterexample:
  "RunHTTP_handler table_StatusText response_ops (boom (loggedResponse_ops response_ops))
       new_response (post body_id) quiet \<noteq>
     Recover response_ops (LogRequest table_StatusText (boom (loggedResponse_ops response_ops)))
       new_response (post body_id) quiet \<and>
   map Message (logged (world (RunHTTP_handler table_StatusText response_ops
                          (boom (loggedResponse_ops response_ops))
                          new_response (post body_id) quiet))) =
     [''Unhandled panic'', ''Internal Server Error: '' @ body_id] \<and>
   map Message (logged (world (Recover response_ops
                          (LogRequest table_StatusText (boom (loggedResponse_ops response_ops)))
                          new_response (post body_id) quiet))) =
     [''Unhandled panic''] \<and>
   map Message (logged (world (RunHTTP_handler_httplib table_StatusText response_ops
                          (boom (loggedResponse_httplib_ops response_ops))
                          new_response (post body_id) quiet))) =
     [''Unhandled panic: boom'',
      ''Internal Server Error'' @ [CHR 0x0A] @ ''Unhandled panic: boom '' @ [CHR 0x0A] @
        ''goroutine 1 [running]'' @ [CHR 0x0A]] \<and>
   map Message (logged (world (Recover_httplib response_ops
                          (LogRequest_httplib table_StatusText
                             (boom (loggedResponse_httplib_ops response_ops)))
                          new_response (post body_id) quiet))) =
     [''Unhandled panic: boom'']"
  by (simp add: RunHTTP_handler_def LogRequest_def Recover_def
        RunHTTP_handler_httplib_def LogRequest_httplib_def Recover_httplib_def
        http_Error_observer_httplib
        boom_def scripted_def Let_def
        ReadAll_def log_entry_def loggedResponse_ops_def loggedResponse_WriteHeader_def
        new_loggedResponse_def new_loggedResponse_httplib_def
        response_ops_def response_WriteHeader_def new_response_def
        quiet_def table_StatusText_def post_def nopCloser_NewReader_def)

section \<open>Properties of the schema validation gate\<close>

lemmas body_defs =
  body_id_def body_id_2_def body_name_def body_two_ids_def body_two_names_def
  body_name_truncated_def body_truncated_def body_huge_number_def

lemma Decode_Cons:
  "queue dec = (obj, e) # rest \<Longrightarrow>
   Decode dec = ((obj, map_option OtherError e), dec\<lparr>queue := rest\<rparr>)"
  by (simp add: Decode_def)

lemma Decode_Nil: "queue dec = [] \<Longrightarrow> Decode dec = ((None, Some (final dec)), dec)"
  by (simp add: Decode_def)

lemma validate_loop_valid_prefix:
  "queue dec = map (\<lambda>d. (d, None)) ds @ rest \<Longrightarrow>
   \<forall>d\<in>set ds. Validate L d = Inr [] \<Longrightarrow>
   validate_loop (length ds + n) W L dec x = validate_loop n W L (dec\<lparr>queue := rest\<rparr>) x"
proof (induction ds arbitrary: dec)
  case Nil
  then have e: "dec\<lparr>queue := rest\<rparr> = dec" by simp
  show ?case unfolding e by simp
next
  case (Cons d ds)
  from Cons.prems(1)
  have dec: "Decode dec = ((d, None), dec\<lparr>queue := map (\<lambda>d. (d, None)) ds @ rest\<rparr>)"
    by (simp add: Decode_Cons)
  from Cons.prems(2) have v: "Validate L d = Inr []" and vs: "\<forall>d\<in>set ds. Validate L d = Inr []"
    by simp_all
  have "validate_loop (length (d # ds) + n) W L dec x =
        validate_loop (length ds + n) W L (dec\<lparr>queue := map (\<lambda>d. (d, None)) ds @ rest\<rparr>) x"
    by (simp add: dec v Result_Valid_def)
  also have "\<dots> = validate_loop n W L (dec\<lparr>queue := map (\<lambda>d. (d, None)) ds @ rest\<rparr>\<lparr>queue := rest\<rparr>) x"
    by (rule Cons.IH) (simp_all add: vs)
  finally show ?case by simp
qed

lemma validate_loop_at_EOF:
  "queue dec = [] \<Longrightarrow> final dec = EOF \<Longrightarrow> validate_loop (Suc n) W L dec x = Some (Break x)"
  by (simp add: Decode_Nil)

lemma validate_loop_at_invalid:
  "queue dec = (bad, None) # rest \<Longrightarrow> Validate L bad = Inr vr \<Longrightarrow> vr \<noteq> [] \<Longrightarrow>
   validate_loop (Suc n) W L dec x =
     Some (Return (http_Error W x (ValidationResult_MarshalJSON L vr) StatusBadRequest))"
  by (simp add: Decode_Cons Result_Valid_def)

lemma validate_loop_at_engine_error:
  "queue dec = (bad, None) # rest \<Longrightarrow> Validate L bad = Inl e \<Longrightarrow>
   validate_loop (Suc n) W L dec x =
     Some (Return (http_Error W x (''Failed to validate: '' @ e) StatusInternalServerError))"
  by (simp add: Decode_Cons)

lemma validate_loop_sticky:
  "queue dec = [] \<Longrightarrow> final dec = OtherError e \<Longrightarrow> Validate L None = Inr [] \<Longrightarrow>
   validate_loop fuel W L dec x = None"
  by (induction fuel arbitrary: x) (simp_all add: Decode_Nil Result_Valid_def)

lemma aggregate_loop_prefix:
  "queue dec = map (\<lambda>d. (d, None)) ds @ rest \<Longrightarrow>
   map (Validate L) ds = map Inr vrs \<Longrightarrow>
   aggregate_loop (length ds + n) W L dec x c rs =
     aggregate_loop n W L (dec\<lparr>queue := rest\<rparr>) x
       (c + int (length (filter (\<lambda>vr. vr \<noteq> []) vrs)))
       (rs @ map ErrorValidationResult vrs)"
proof (induction ds arbitrary: dec vrs c rs)
  case Nil
  then have e: "dec\<lparr>queue := rest\<rparr> = dec" and v: "vrs = []" by simp_all
  show ?case unfolding e v by simp
next
  case (Cons d ds)
  from Cons.prems(2) obtain vr vrs' where vrs: "vrs = vr # vrs'"
    and v: "Validate L d = Inr vr" and vs: "map (Validate L) ds = map Inr vrs'"
    by (cases vrs) auto
  from Cons.prems(1)
  have dec: "Decode dec = ((d, None), dec\<lparr>queue := map (\<lambda>d. (d, None)) ds @ rest\<rparr>)"
    by (simp add: Decode_Cons)
  have "aggregate_loop (length (d # ds) + n) W L dec x c rs =
        aggregate_loop (length ds + n) W L (dec\<lparr>queue := map (\<lambda>d. (d, None)) ds @ rest\<rparr>) x
          (if vr \<noteq> [] then c + 1 else c) (rs @ [ErrorValidationResult vr])"
    by (simp add: dec v Result_Valid_def)
  also have "\<dots> = aggregate_loop n W L
       (dec\<lparr>queue := map (\<lambda>d. (d, None)) ds @ rest\<rparr>\<lparr>queue := rest\<rparr>) x
       ((if vr \<noteq> [] then c + 1 else c) + int (length (filter (\<lambda>vr. vr \<noteq> []) vrs')))
       ((rs @ [ErrorValidationResult vr]) @ map ErrorValidationResult vrs')"
    by (rule Cons.IH) (simp_all add: vs)
  also have "\<dots> = aggregate_loop n W L (dec\<lparr>queue := rest\<rparr>) x
       (c + int (length (filter (\<lambda>vr. vr \<noteq> []) vrs)))
       (rs @ map ErrorValidationResult vrs)"
    by (simp add: vrs add.assoc)
  finally show ?case .
qed

lemma aggregate_loop_at_EOF:
  "queue dec = [] \<Longrightarrow> final dec = EOF \<Longrightarrow>
   aggregate_loop (Suc n) W L dec x c rs = Some (Finished c rs)"
  by (simp add: Decode_Nil)

lemma aggregate_loop_at_engine_error:
  "queue dec = (bad, None) # rest \<Longrightarrow> Validate L bad = Inl e \<Longrightarrow>
   aggregate_loop (Suc n) W L dec x c rs =
     Some (Aborted (http_Error W x (''Failed to validate: '' @ e) StatusInternalServerError))"
  by (simp add: Decode_Cons)

lemma aggregate_loop_sticky:
  "queue dec = [] \<Longrightarrow> final dec = OtherError e \<Longrightarrow> Validate L None = Inr vr \<Longrightarrow>
   aggregate_loop fuel W L dec x c rs = None"
  by (induction fuel arbitrary: c rs) (simp_all add: Decode_Nil)

lemma more_fuel: "n < fuel \<Longrightarrow> \<exists>k. fuel = n + Suc k"
  by (metis less_imp_Suc_add add_Suc_right)

lemma ValidateJSONSchema_read:
  "readErr (Body r) = None \<Longrightarrow>
   ValidateJSONSchema fuel W L next x r st =
     (case validate_loop fuel W L (NewDecoder L (remaining (Body r))) x of
        None \<Rightarrow> None
      | Some (Return x') \<Rightarrow> Some (Result x' (r\<lparr>Body := snd (ReadAll (Body r))\<rparr>) st Returned)
      | Some (Break x') \<Rightarrow>
          Some (next x' (r\<lparr>Body := nopCloser_NewReader (remaining (Body r))\<rparr>) st))"
  by (simp add: ValidateJSONSchema_def ReadAll_def split: option.splits loop_exit.splits)

lemma ValidateJSONSchema_aggregate_read:
  "readErr (Body r) = None \<Longrightarrow>
   ValidateJSONSchema_aggregate fuel W L next x r st =
     (case aggregate_loop fuel W L (NewDecoder L (remaining (Body r))) x 0 [] of
        None \<Rightarrow> None
      | Some (Aborted x') \<Rightarrow> Some (Result x' (r\<lparr>Body := snd (ReadAll (Body r))\<rparr>) st Returned)
      | Some (Finished c rs) \<Rightarrow>
          if c > 0
          then Some (Result (write_results W L rs (WriteHeader W x StatusBadRequest))
                       (r\<lparr>Body := snd (ReadAll (Body r))\<rparr>) st Returned)
          else Some (next x (r\<lparr>Body := nopCloser_NewReader (remaining (Body r))\<rparr>) st))"
  by (simp add: ValidateJSONSchema_aggregate_def ReadAll_def
        split: option.splits aggregate_exit.splits)

lemma validate_loop_all_valid:
  assumes "queue dec = map (\<lambda>d. (d, None)) ds" and "final dec = EOF"
    and "\<forall>d\<in>set ds. Validate L d = Inr []" and "length ds < fuel"
  shows "validate_loop fuel W L dec x = Some (Break x)"
proof -
  from assms(4) obtain k where fuel: "fuel = length ds + Suc k"
    using more_fuel by blast
  have "validate_loop (length ds + Suc k) W L dec x =
        validate_loop (Suc k) W L (dec\<lparr>queue := []\<rparr>) x"
    using assms(1,3) by (intro validate_loop_valid_prefix) simp_all
  also have "\<dots> = Some (Break x)"
    using assms(2) by (intro validate_loop_at_EOF) simp_all
  finally show ?thesis by (simp only: fuel)
qed

lemma aggregate_loop_all_judged:
  assumes "queue dec = map (\<lambda>d. (d, None)) ds" and "final dec = EOF"
    and "map (Validate L) ds = map Inr vrs" and "length ds < fuel"
  shows "aggregate_loop fuel W L dec x 0 [] =
           Some (Finished (int (length (filter (\<lambda>vr. vr \<noteq> []) vrs)))
                   (map ErrorValidationResult vrs))"
proof -
  from assms(4) obtain k where fuel: "fuel = length ds + Suc k"
    using more_fuel by blast
  have "aggregate_loop (length ds + Suc k) W L dec x 0 [] =
        aggregate_loop (Suc k) W L (dec\<lparr>queue := []\<rparr>) x
          (0 + int (length (filter (\<lambda>vr. vr \<noteq> []) vrs))) ([] @ map ErrorValidationResult vrs)"
    using assms(1,3) by (intro aggregate_loop_prefix) simp_all
  also have "\<dots> = Some (Finished (0 + int (length (filter (\<lambda>vr. vr \<noteq> []) vrs)))
                         ([] @ map ErrorValidationResult vrs))"
    using assms(2) by (intro aggregate_loop_at_EOF) simp_all
  finally show ?thesis by (simp only: fuel add_0 append_Nil)
qed

lemma all_valid_verdicts:
  "\<forall>d\<in>set ds. Validate L d = Inr [] \<Longrightarrow> map (Validate L) ds = map Inr (map (\<lambda>d. []) ds)"
  by (induction ds) simp_all

lemma ReadAll_NewReader: "fst (ReadAll (nopCloser_NewReader buf)) = (buf, None)"
  by (simp add: ReadAll_def nopCloser_NewReader_def)

text \<open>
  Claim C1. The body is read without error, the decoder returns the documents \<open>ds\<close>
  without error and then \<^verbatim>\<open>io.EOF\<close>, and the schema judges every one of them
  valid. Then, for every wrapped handler \<open>next\<close>, the gate of \<^verbatim>\<open>src/validate.go\<close>
  and the collecting gate of \<^verbatim>\<open>src/unnamed/part_001\<close> return (with fuel for one
  iteration more than there are documents) exactly what one call of \<open>next\<close> returns on
  the unchanged writer and world and on the request whose \<^verbatim>\<open>Body\<close> alone is
  replaced by a reader that yields the original bytes from their start. The
  single-document gate does the same when the engine judges the text of the body valid.
\<close>

theorem valid_body_is_forwarded:
  assumes "readErr (Body r) = None"
    and "queue (NewDecoder L (remaining (Body r))) = map (\<lambda>d. (d, None)) ds"
    and "final (NewDecoder L (remaining (Body r))) = EOF"
    and "\<forall>d\<in>set ds. Validate L d = Inr []"
    and "length ds < fuel"
  shows "ValidateJSONSchema fuel W L next x r st =
           Some (next x (r\<lparr>Body := nopCloser_NewReader (remaining (Body r))\<rparr>) st) \<and>
         ValidateJSONSchema_aggregate fuel W L next x r st =
           Some (next x (r\<lparr>Body := nopCloser_NewReader (remaining (Body r))\<rparr>) st) \<and>
         fst (ReadAll (nopCloser_NewReader (remaining (Body r)))) = (remaining (Body r), None) \<and>
         (ValidateString L (remaining (Body r)) = Inr [] \<longrightarrow>
            ValidateJSONSchema_single W L next x r st =
              next x (r\<lparr>Body := nopCloser_NewReader (remaining (Body r))\<rparr>) st)"
proof -
  have v1: "validate_loop fuel W L (NewDecoder L (remaining (Body r))) x = Some (Break x)"
    using assms(2-5) by (rule validate_loop_all_valid)
  have "aggregate_loop fuel W L (NewDecoder L (remaining (Body r))) x 0 [] =
          Some (Finished (int (length (filter (\<lambda>vr. vr \<noteq> []) (map (\<lambda>d. []::Result) ds))))
                  (map ErrorValidationResult (map (\<lambda>d. []) ds)))"
    using assms(2,3) all_valid_verdicts [OF assms(4)] assms(5)
    by (rule aggregate_loop_all_judged)
  then have v2: "aggregate_loop fuel W L (NewDecoder L (remaining (Body r))) x 0 [] =
          Some (Finished 0 (map ErrorValidationResult (map (\<lambda>d. []) ds)))"
    by (simp add: filter_False)
  show ?thesis
    by (simp add: ValidateJSONSchema_read ValidateJSONSchema_aggregate_read assms(1) v1 v2
          ReadAll_NewReader)
       (simp add: ValidateJSONSchema_single_def ReadAll_def assms(1) Result_Valid_def)
qed

text \<open>
  Claim C6, as the code has it. For an empty body, on which the decoder returns
  \<^verbatim>\<open>io.EOF\<close> at the first call (zero documents), both gates that decode the body
  call the wrapped handler once, on the unchanged writer and on the request whose body
  is a reader over the same, empty, bytes. The single-document gate of
  \<^verbatim>\<open>src/unnamed/part_001\<close>, lines 137-164, hands the empty text to the engine: it
  calls the handler when the engine judges the text valid, and answers 400 when the
  engine returns an error.
\<close>

theorem empty_body_is_forwarded_by_decoding_gates:
  assumes "readErr (Body r) = None"
    and "remaining (Body r) = []"
    and "queue (NewDecoder L []) = []"
    and "final (NewDecoder L []) = EOF"
    and "0 < fuel"
  shows "ValidateJSONSchema fuel W L next x r st =
           Some (next x (r\<lparr>Body := nopCloser_NewReader []\<rparr>) st) \<and>
         ValidateJSONSchema_aggregate fuel W L next x r st =
           Some (next x (r\<lparr>Body := nopCloser_NewReader []\<rparr>) st) \<and>
         fst (ReadAll (nopCloser_NewReader [])) = ([], None) \<and>
         (ValidateString L [] = Inr [] \<longrightarrow>
            ValidateJSONSchema_single W L next x r st =
              next x (r\<lparr>Body := nopCloser_NewReader []\<rparr>) st) \<and>
         (\<forall>e. ValidateString L [] = Inl e \<longrightarrow>
            ValidateJSONSchema_single W L next x r st =
              Result (http_Error W x (''Failed to validate: '' @ e) StatusBadRequest)
                (r\<lparr>Body := snd (ReadAll (Body r))\<rparr>) st Returned)"
proof -
  from assms(5) obtain k where fuel: "fuel = Suc k"
    by (cases fuel) simp_all
  have v1: "validate_loop fuel W L (NewDecoder L []) x = Some (Break x)"
    unfolding fuel using assms(3,4) by (rule validate_loop_at_EOF)
  have v2: "aggregate_loop fuel W L (NewDecoder L []) x 0 [] = Some (Finished 0 [])"
    unfolding fuel using assms(3,4) by (rule aggregate_loop_at_EOF)
  show ?thesis
    by (simp add: ValidateJSONSchema_read ValidateJSONSchema_aggregate_read assms(1,2) v1 v2
          ReadAll_NewReader)
       (simp add: ValidateJSONSchema_single_def ReadAll_def assms(1,2) Result_Valid_def)
qed

lemma validate_loop_first_invalid:
  assumes "queue dec = map (\<lambda>d. (d, None)) ds @ (bad, None) # rest"
    and "\<forall>d\<in>set ds. Validate L d = Inr []"
    and "Validate L bad = Inr vr" and "vr \<noteq> []" and "length ds < fuel"
  shows "validate_loop fuel W L dec x =
           Some (Return (http_Error W x (ValidationResult_MarshalJSON L vr) StatusBadRequest))"
proof -
  from assms(5) obtain k where fuel: "fuel = length ds + Suc k"
    using more_fuel by blast
  have "validate_loop (length ds + Suc k) W L dec x =
        validate_loop (Suc k) W L (dec\<lparr>queue := (bad, None) # rest\<rparr>) x"
    using assms(1,2) by (rule validate_loop_valid_prefix)
  also have "\<dots> = Some (Return (http_Error W x (ValidationResult_MarshalJSON L vr) StatusBadRequest))"
    using assms(3,4) by (intro validate_loop_at_invalid) simp_all
  finally show ?thesis by (simp only: fuel)
qed

lemma validate_loop_engine_error:
  assumes "queue dec = map (\<lambda>d. (d, None)) ds @ (bad, None) # rest"
    and "\<forall>d\<in>set ds. Validate L d = Inr []"
    and "Validate L bad = Inl e" and "length ds < fuel"
  shows "validate_loop fuel W L dec x =
           Some (Return (http_Error W x (''Failed to validate: '' @ e) StatusInternalServerError))"
proof -
  from assms(4) obtain k where fuel: "fuel = length ds + Suc k"
    using more_fuel by blast
  have "validate_loop (length ds + Suc k) W L dec x =
        validate_loop (Suc k) W L (dec\<lparr>queue := (bad, None) # rest\<rparr>) x"
    using assms(1,2) by (rule validate_loop_valid_prefix)
  also have "\<dots> = Some (Return (http_Error W x (''Failed to validate: '' @ e)
                                  StatusInternalServerError))"
    using assms(3) by (intro validate_loop_at_engine_error) simp_all
  finally show ?thesis by (simp only: fuel)
qed

lemma aggregate_loop_engine_error:
  assumes "queue dec = map (\<lambda>d. (d, None)) ds @ (bad, None) # rest"
    and "map (Validate L) ds = map Inr vrs"
    and "Validate L bad = Inl e" and "length ds < fuel"
  shows "aggregate_loop fuel W L dec x 0 [] =
           Some (Aborted (http_Error W x (''Failed to validate: '' @ e) StatusInternalServerError))"
proof -
  from assms(4) obtain k where fuel: "fuel = length ds + Suc k"
    using more_fuel by blast
  have "aggregate_loop (length ds + Suc k) W L dec x 0 [] =
        aggregate_loop (Suc k) W L (dec\<lparr>queue := (bad, None) # rest\<rparr>) x
          (0 + int (length (filter (\<lambda>vr. vr \<noteq> []) vrs))) ([] @ map ErrorValidationResult vrs)"
    using assms(1,2) by (rule aggregate_loop_prefix)
  also have "\<dots> = Some (Aborted (http_Error W x (''Failed to validate: '' @ e)
                                   StatusInternalServerError))"
    using assms(3) by (intro aggregate_loop_at_engine_error) simp_all
  finally show ?thesis by (simp only: fuel)
qed

lemma first_invalid_split:
  assumes "map (Validate L) ds = map Inr vrs" and "\<exists>vr\<in>set vrs. vr \<noteq> []"
  shows "\<exists>ds1 bad ds2 vr. ds = ds1 @ bad # ds2 \<and> (\<forall>d\<in>set ds1. Validate L d = Inr []) \<and>
           Validate L bad = Inr vr \<and> vr \<noteq> []"
proof -
  from assms(2) obtain ys v zs where vrs: "vrs = ys @ v # zs" and v: "v \<noteq> []"
    and ys: "\<forall>y\<in>set ys. \<not> y \<noteq> []"
    using split_list_first_prop [of vrs "\<lambda>vr. vr \<noteq> []"] by blast
  from assms(1) vrs obtain ds1 ds' where ds: "ds = ds1 @ ds'"
    and m1: "map (Validate L) ds1 = map Inr ys" and m2: "map (Validate L) ds' = map Inr (v # zs)"
    by (auto simp: map_eq_append_conv)
  from m2 obtain bad ds2 where ds': "ds' = bad # ds2" and b: "Validate L bad = Inr v"
    by (cases ds') auto
  have "\<forall>d\<in>set ds1. Validate L d = Inr []"
  proof
    fix d assume "d \<in> set ds1"
    then obtain i where i: "i < length ds1" and d: "d = ds1 ! i"
      by (auto simp: in_set_conv_nth)
    from m1 have len: "length ds1 = length ys"
      by (metis length_map)
    from m1 i have "Validate L (ds1 ! i) = Inr (ys ! i)"
      by (metis len nth_map)
    moreover from ys i len have "ys ! i = []" by simp
    ultimately show "Validate L d = Inr []" by (simp add: d)
  qed
  with ds ds' b v show ?thesis by blast
qed

lemma write_results_response:
  "sent (write_results response_ops L vs x) =
     sent x @ concat (map (\<lambda>v. MarshalStruct L v @ [CHR 0x0A]) vs)"
  "wroteHeader x \<Longrightarrow> statusCode (write_results response_ops L vs x) = statusCode x"
  "wroteHeader x \<Longrightarrow> wroteHeader (write_results response_ops L vs x)"
  by (induction vs arbitrary: x)
     (simp_all add: response_ops_def response_Write_def response_WriteHeader_def Let_def)

lemma response_WriteHeader_ops:
  "statusCode (WriteHeader response_ops x c) = (if wroteHeader x then statusCode x else c)"
  "wroteHeader (WriteHeader response_ops x c)"
  "sent (WriteHeader response_ops x c) = sent x"
  by (simp_all add: response_ops_def response_WriteHeader_def)

text \<open>
  Rejection on a body that decodes cleanly. The body is a sequence of documents \<open>ds\<close>
  that decode without error up to the end of input, the engine returns a result \<open>vrs\<close>
  for each of them, and at least one result is invalid. Then all three gates, on a
  response that was not started, return one fixed response with status 400 whatever the
  wrapped handler is: the handler is not called. (For the single-document gate: when the
  engine judges the text of the body invalid.)
\<close>

theorem invalid_document_is_rejected:
  assumes "readErr (Body r) = None"
    and "queue (NewDecoder L (remaining (Body r))) = map (\<lambda>d. (d, None)) ds"
    and "final (NewDecoder L (remaining (Body r))) = EOF"
    and "map (Validate L) ds = map Inr vrs"
    and "\<exists>vr\<in>set vrs. vr \<noteq> []"
    and "length ds < fuel"
    and "\<not> wroteHeader x"
  shows "(\<exists>x'. statusCode x' = StatusBadRequest \<and> wroteHeader x' \<and>
            (\<forall>next. ValidateJSONSchema fuel response_ops L next x r st =
               Some (Result x' (r\<lparr>Body := snd (ReadAll (Body r))\<rparr>) st Returned))) \<and>
         (\<exists>x'. statusCode x' = StatusBadRequest \<and> wroteHeader x' \<and>
            (\<forall>next. ValidateJSONSchema_aggregate fuel response_ops L next x r st =
               Some (Result x' (r\<lparr>Body := snd (ReadAll (Body r))\<rparr>) st Returned))) \<and>
         (\<forall>vr. ValidateString L (remaining (Body r)) = Inr vr \<and> vr \<noteq> [] \<longrightarrow>
            (\<exists>x'. statusCode x' = StatusBadRequest \<and> wroteHeader x' \<and>
               (\<forall>next. ValidateJSONSchema_single response_ops L next x r st =
                  Result x' (r\<lparr>Body := snd (ReadAll (Body r))\<rparr>) st Returned)))"
proof (intro conjI allI impI)
  from first_invalid_split [OF assms(4,5)]
  obtain ds1 bad ds2 vr where ds: "ds = ds1 @ bad # ds2"
    and ok: "\<forall>d\<in>set ds1. Validate L d = Inr []"
    and bad: "Validate L bad = Inr vr" "vr \<noteq> []"
    by blast
  have q: "queue (NewDecoder L (remaining (Body r))) =
             map (\<lambda>d. (d, None)) ds1 @ (bad, None) # map (\<lambda>d. (d, None)) ds2"
    by (simp add: assms(2) ds)
  have len: "length ds1 < fuel"
    using assms(6) by (simp add: ds)
  have v1: "validate_loop fuel response_ops L (NewDecoder L (remaining (Body r))) x =
              Some (Return (http_Error response_ops x (ValidationResult_MarshalJSON L vr)
                              StatusBadRequest))"
    using q ok bad len by (rule validate_loop_first_invalid)
  show "\<exists>x'. statusCode x' = StatusBadRequest \<and> wroteHeader x' \<and>
            (\<forall>next. ValidateJSONSchema fuel response_ops L next x r st =
               Some (Result x' (r\<lparr>Body := snd (ReadAll (Body r))\<rparr>) st Returned))"
    by (rule exI [of _ "http_Error response_ops x (ValidationResult_MarshalJSON L vr)
                          StatusBadRequest"])
       (simp add: ValidateJSONSchema_read assms(1,7) v1 http_Error_response)
next
  have v2: "aggregate_loop fuel response_ops L (NewDecoder L (remaining (Body r))) x 0 [] =
           Some (Finished (int (length (filter (\<lambda>vr. vr \<noteq> []) vrs)))
                   (map ErrorValidationResult vrs))"
    using assms(2,3,4,6) by (rule aggregate_loop_all_judged)
  from assms(5) have pos: "filter (\<lambda>vr. vr \<noteq> []) vrs \<noteq> []"
    by (simp add: filter_empty_conv)
  show "\<exists>x'. statusCode x' = StatusBadRequest \<and> wroteHeader x' \<and>
            (\<forall>next. ValidateJSONSchema_aggregate fuel response_ops L next x r st =
               Some (Result x' (r\<lparr>Body := snd (ReadAll (Body r))\<rparr>) st Returned))"
    by (rule exI [of _ "write_results response_ops L (map ErrorValidationResult vrs)
                          (WriteHeader response_ops x StatusBadRequest)"])
       (simp add: ValidateJSONSchema_aggregate_read assms(1,7) v2 pos write_results_response
          response_WriteHeader_ops)
next
  fix vr
  assume "ValidateString L (remaining (Body r)) = Inr vr \<and> vr \<noteq> []"
  then show "\<exists>x'. statusCode x' = StatusBadRequest \<and> wroteHeader x' \<and>
               (\<forall>next. ValidateJSONSchema_single response_ops L next x r st =
                  Result x' (r\<lparr>Body := snd (ReadAll (Body r))\<rparr>) st Returned)"
    by (intro exI [of _ "http_Error response_ops x (ValidationResult_MarshalJSON L vr)
                          StatusBadRequest"])
       (simp add: ValidateJSONSchema_single_def ReadAll_def assms(1,7) http_Error_response
          Result_Valid_def)
qed

lemma verdicts_all_valid:
  "map (Validate L) ds = map Inr vrs \<Longrightarrow> \<forall>vr\<in>set vrs. vr = [] \<Longrightarrow>
   \<forall>d\<in>set ds. Validate L d = Inr []"
proof (induction ds arbitrary: vrs)
  case Nil
  then show ?case by simp
next
  case (Cons d ds)
  then obtain vr vrs' where "vrs = vr # vrs'" by (cases vrs) auto
  with Cons show ?case by auto
qed

text \<open>
  Claim C3, as the code has it. The body is read without error and decodes, with no
  decoding error up to \<^verbatim>\<open>io.EOF\<close>, to the documents \<open>ds1 @ bad # ds2\<close>, where \<open>bad\<close>
  is the first invalid one and the engine returns a result for every later document.
  The collecting gate of \<^verbatim>\<open>src/unnamed/part_001\<close> goes on after \<open>bad\<close> and answers
  with \<^verbatim>\<open>WriteHeader(400)\<close> and one line for every document of the body, in order.
  The gate of \<^verbatim>\<open>src/validate.go\<close> returns at \<open>bad\<close>: its response reports \<open>bad\<close>
  alone and does not depend on \<open>ds2\<close>. Both responses have status 400 when the
  response was not started before, and neither gate calls the handler.
\<close>

theorem aggregate_reports_every_document:
  assumes "readErr (Body r) = None"
    and "queue (NewDecoder L (remaining (Body r))) = map (\<lambda>d. (d, None)) (ds1 @ bad # ds2)"
    and "final (NewDecoder L (remaining (Body r))) = EOF"
    and "\<forall>d\<in>set ds1. Validate L d = Inr []"
    and "Validate L bad = Inr vr" and "vr \<noteq> []"
    and "map (Validate L) ds2 = map Inr vrs2"
    and "length ds1 + length ds2 + 1 < fuel"
  shows "ValidateJSONSchema_aggregate fuel response_ops L next x r st =
           Some (Result (write_results response_ops L
                           (map ErrorValidationResult (map (\<lambda>d. []) ds1 @ vr # vrs2))
                           (WriteHeader response_ops x StatusBadRequest))
                   (r\<lparr>Body := snd (ReadAll (Body r))\<rparr>) st Returned) \<and>
         sent (write_results response_ops L
                 (map ErrorValidationResult (map (\<lambda>d. []) ds1 @ vr # vrs2))
                 (WriteHeader response_ops x StatusBadRequest)) =
           sent x @ concat (map (\<lambda>v. MarshalStruct L (ErrorValidationResult v) @ [CHR 0x0A])
                              (map (\<lambda>d. []) ds1 @ vr # vrs2)) \<and>
         ValidateJSONSchema fuel response_ops L next x r st =
           Some (Result (http_Error response_ops x (ValidationResult_MarshalJSON L vr)
                           StatusBadRequest)
                   (r\<lparr>Body := snd (ReadAll (Body r))\<rparr>) st Returned) \<and>
         sent (http_Error response_ops x (ValidationResult_MarshalJSON L vr) StatusBadRequest) =
           sent x @ ValidationResult_MarshalJSON L vr @ [CHR 0x0A] \<and>
         statusCode (write_results response_ops L
                       (map ErrorValidationResult (map (\<lambda>d. []) ds1 @ vr # vrs2))
                       (WriteHeader response_ops x StatusBadRequest)) =
           (if wroteHeader x then statusCode x else StatusBadRequest) \<and>
         statusCode (http_Error response_ops x (ValidationResult_MarshalJSON L vr)
                       StatusBadRequest) =
           (if wroteHeader x then statusCode x else StatusBadRequest)"
proof -
  have m: "map (Validate L) (ds1 @ bad # ds2) = map Inr (map (\<lambda>d. []) ds1 @ vr # vrs2)"
    using all_valid_verdicts [OF assms(4)] assms(5,7) by simp
  have len: "length (ds1 @ bad # ds2) < fuel"
    using assms(8) by simp
  have v2: "aggregate_loop fuel response_ops L (NewDecoder L (remaining (Body r))) x 0 [] =
           Some (Finished (int (length (filter (\<lambda>vr. vr \<noteq> []) (map (\<lambda>d. []) ds1 @ vr # vrs2))))
                   (map ErrorValidationResult (map (\<lambda>d. []) ds1 @ vr # vrs2)))"
    using assms(2,3) m len by (rule aggregate_loop_all_judged)
  have pos: "filter (\<lambda>vr. vr \<noteq> []) (map (\<lambda>d. []) ds1 @ vr # vrs2) \<noteq> []"
    using assms(6) by simp
  have q: "queue (NewDecoder L (remaining (Body r))) =
             map (\<lambda>d. (d, None)) ds1 @ (bad, None) # map (\<lambda>d. (d, None)) ds2"
    by (simp add: assms(2))
  have len1: "length ds1 < fuel"
    using assms(8) by simp
  have v1: "validate_loop fuel response_ops L (NewDecoder L (remaining (Body r))) x =
              Some (Return (http_Error response_ops x (ValidationResult_MarshalJSON L vr)
                              StatusBadRequest))"
    using q assms(4,5,6) len1 by (rule validate_loop_first_invalid)
  have a: "ValidateJSONSchema_aggregate fuel response_ops L next x r st =
           Some (Result (write_results response_ops L
                           (map ErrorValidationResult (map (\<lambda>d. []) ds1 @ vr # vrs2))
                           (WriteHeader response_ops x StatusBadRequest))
                   (r\<lparr>Body := snd (ReadAll (Body r))\<rparr>) st Returned)"
    using pos by (simp add: ValidateJSONSchema_aggregate_read assms(1) v2)
  have b: "ValidateJSONSchema fuel response_ops L next x r st =
           Some (Result (http_Error response_ops x (ValidationResult_MarshalJSON L vr)
                           StatusBadRequest)
                   (r\<lparr>Body := snd (ReadAll (Body r))\<rparr>) st Returned)"
    by (simp add: ValidateJSONSchema_read assms(1) v1)
  have c: "sent (write_results response_ops L
                 (map ErrorValidationResult (map (\<lambda>d. []) ds1 @ vr # vrs2))
                 (WriteHeader response_ops x StatusBadRequest)) =
           sent x @ concat (map (\<lambda>v. MarshalStruct L (ErrorValidationResult v) @ [CHR 0x0A])
                              (map (\<lambda>d. []) ds1 @ vr # vrs2))"
    by (simp add: write_results_response response_WriteHeader_ops comp_def)
  have d: "statusCode (write_results response_ops L
                       (map ErrorValidationResult (map (\<lambda>d. []) ds1 @ vr # vrs2))
                       (WriteHeader response_ops x StatusBadRequest)) =
           (if wroteHeader x then statusCode x else StatusBadRequest)"
    by (simp add: write_results_response response_WriteHeader_ops)
  show ?thesis
    using a b c d by (simp only: http_Error_response simp_thms)
qed

text \<open>
  Claim C5, as the code has it. The engine returns an error for the document \<open>bad\<close>,
  which was decoded without error after the documents \<open>ds\<close>, and the response was not
  started. The collecting gate then answers 500 and returns, whatever follows \<open>bad\<close>
  in the body, and does not call the handler; so does the gate of
  \<^verbatim>\<open>src/validate.go\<close> when the documents before \<open>bad\<close> are valid. The
  single-document gate of \<^verbatim>\<open>src/unnamed/part_001\<close>, lines 150-153, answers an
  error of the engine with 400, and does not call the handler either.
\<close>

theorem engine_failure_aborts:
  assumes "readErr (Body r) = None"
    and "queue (NewDecoder L (remaining (Body r))) = map (\<lambda>d. (d, None)) ds @ (bad, None) # rest"
    and "map (Validate L) ds = map Inr vrs"
    and "Validate L bad = Inl e"
    and "length ds < fuel"
    and "\<not> wroteHeader x"
  shows "ValidateJSONSchema_aggregate fuel response_ops L next x r st =
           Some (Result (http_Error response_ops x (''Failed to validate: '' @ e)
                           StatusInternalServerError)
                   (r\<lparr>Body := snd (ReadAll (Body r))\<rparr>) st Returned) \<and>
         ((\<forall>vr\<in>set vrs. vr = []) \<longrightarrow>
            ValidateJSONSchema fuel response_ops L next x r st =
              Some (Result (http_Error response_ops x (''Failed to validate: '' @ e)
                              StatusInternalServerError)
                      (r\<lparr>Body := snd (ReadAll (Body r))\<rparr>) st Returned)) \<and>
         statusCode (http_Error response_ops x (''Failed to validate: '' @ e)
                       StatusInternalServerError) = StatusInternalServerError \<and>
         (\<forall>e'. ValidateString L (remaining (Body r)) = Inl e' \<longrightarrow>
            ValidateJSONSchema_single response_ops L next x r st =
              Result (http_Error response_ops x (''Failed to validate: '' @ e') StatusBadRequest)
                (r\<lparr>Body := snd (ReadAll (Body r))\<rparr>) st Returned \<and>
            statusCode (http_Error response_ops x (''Failed to validate: '' @ e')
                          StatusBadRequest) = StatusBadRequest)"
proof (intro conjI allI impI)
  have v2: "aggregate_loop fuel response_ops L (NewDecoder L (remaining (Body r))) x 0 [] =
           Some (Aborted (http_Error response_ops x (''Failed to validate: '' @ e)
                            StatusInternalServerError))"
    using assms(2,3,4,5) by (rule aggregate_loop_engine_error)
  show "ValidateJSONSchema_aggregate fuel response_ops L next x r st =
           Some (Result (http_Error response_ops x (''Failed to validate: '' @ e)
                           StatusInternalServerError)
                   (r\<lparr>Body := snd (ReadAll (Body r))\<rparr>) st Returned)"
    by (simp add: ValidateJSONSchema_aggregate_read assms(1) v2)
next
  assume "\<forall>vr\<in>set vrs. vr = []"
  with assms(3) have ok: "\<forall>d\<in>set ds. Validate L d = Inr []"
    by (rule verdicts_all_valid)
  have v1: "validate_loop fuel response_ops L (NewDecoder L (remaining (Body r))) x =
           Some (Return (http_Error response_ops x (''Failed to validate: '' @ e)
                           StatusInternalServerError))"
    using assms(2) ok assms(4,5) by (rule validate_loop_engine_error)
  show "ValidateJSONSchema fuel response_ops L next x r st =
              Some (Result (http_Error response_ops x (''Failed to validate: '' @ e)
                              StatusInternalServerError)
                      (r\<lparr>Body := snd (ReadAll (Body r))\<rparr>) st Returned)"
    by (simp add: ValidateJSONSchema_read assms(1) v1)
next
  show "statusCode (http_Error response_ops x (''Failed to validate: '' @ e)
                       StatusInternalServerError) = StatusInternalServerError"
    by (simp add: http_Error_response assms(6))
next
  fix e'
  assume "ValidateString L (remaining (Body r)) = Inl e'"
  then show "ValidateJSONSchema_single response_ops L next x r st =
              Result (http_Error response_ops x (''Failed to validate: '' @ e') StatusBadRequest)
                (r\<lparr>Body := snd (ReadAll (Body r))\<rparr>) st Returned"
    by (simp add: ValidateJSONSchema_single_def ReadAll_def assms(1))
next
  fix e'
  show "statusCode (http_Error response_ops x (''Failed to validate: '' @ e')
                          StatusBadRequest) = StatusBadRequest"
    by (simp add: http_Error_response assms(6))
qed

lemma gate_aggregate_sticky:
  assumes "readErr (Body r) = None"
    and "queue (NewDecoder L (remaining (Body r))) = []"
    and "final (NewDecoder L (remaining (Body r))) = OtherError e"
    and "Validate L None = Inr vr"
  shows "ValidateJSONSchema_aggregate fuel W L next x r st = None"
  by (simp add: ValidateJSONSchema_aggregate_read assms(1)
        aggregate_loop_sticky [OF assms(2,3,4)])

lemma gate_sticky:
  assumes "readErr (Body r) = None"
    and "queue (NewDecoder L (remaining (Body r))) = []"
    and "final (NewDecoder L (remaining (Body r))) = OtherError e"
    and "Validate L None = Inr []"
  shows "ValidateJSONSchema fuel W L next x r st = None"
  by (simp add: ValidateJSONSchema_read assms(1) validate_loop_sticky [OF assms(2,3,4)])

lemma post_Body:
  "readErr (Body (post b)) = None" "remaining (Body (post b)) = b"
  "(post b)\<lparr>Body := nopCloser_NewReader b\<rparr> = post b"
  by (simp_all add: post_def nopCloser_NewReader_def)

lemma table_two_ids:
  "queue (NewDecoder scenario_library body_two_ids) =
     map (\<lambda>d. (d, None)) [Some (JObject [(''id'', JNumber 1)]), Some (JObject [(''id'', JNumber 2)])]"
  "final (NewDecoder scenario_library body_two_ids) = EOF"
  by (simp_all add: scenario_library_def table_NewDecoder_def body_defs)

lemma table_two_names:
  "queue (NewDecoder scenario_library body_two_names) =
     map (\<lambda>d. (d, None)) ([] @ Some (JObject [(''name'', JString ''x'')]) #
                             [Some (JObject [(''name'', JString ''y'')])])"
  "final (NewDecoder scenario_library body_two_names) = EOF"
  by (simp_all add: scenario_library_def table_NewDecoder_def body_defs)

lemma table_name:
  "queue (NewDecoder scenario_library body_name) =
     map (\<lambda>d. (d, None)) [Some (JObject [(''name'', JString ''x'')])]"
  "final (NewDecoder scenario_library body_name) = EOF"
  by (simp_all add: scenario_library_def table_NewDecoder_def body_defs)

lemma table_empty:
  "queue (NewDecoder scenario_library []) = []" "final (NewDecoder scenario_library []) = EOF"
  by (simp_all add: scenario_library_def table_NewDecoder_def)

lemma table_truncated:
  "queue (table_NewDecoder body_truncated) = []"
  "final (table_NewDecoder body_truncated) = OtherError ''unexpected EOF''"
  by (simp_all add: table_NewDecoder_def body_defs)

lemma table_huge_number:
  "table_NewDecoder body_huge_number =
     \<lparr>queue = [(None, Some ''json: cannot unmarshal number 1e999 into Go value of type float64'')],
      final = EOF\<rparr>"
  by (simp add: table_NewDecoder_def body_defs)

text \<open>Scenarios A and C of the spec: the handler sees the identical two-document body.\<close>

theorem valid_body_is_forwarded_witness:
  "ValidateJSONSchema 3 response_ops scenario_library echo new_response (post body_two_ids) quiet =
     Some (echo new_response (post body_two_ids) quiet) \<and>
   ValidateJSONSchema_aggregate 3 response_ops scenario_library echo new_response
       (post body_two_ids) quiet =
     Some (echo new_response (post body_two_ids) quiet) \<and>
   ValidateJSONSchema_single response_ops scenario_library echo new_response
       (post body_two_ids) quiet =
     echo new_response (post body_two_ids) quiet \<and>
   sent (writer (echo new_response (post body_two_ids) quiet)) = body_two_ids"
proof -
  have v: "\<forall>d\<in>set [Some (JObject [(''id'', JNumber 1)]), Some (JObject [(''id'', JNumber 2)])].
             Validate scenario_library d = Inr []"
    by (simp add: scenario_library_def requires_id_def)
  have s: "ValidateString scenario_library body_two_ids = Inr []"
    by (simp add: scenario_library_def via_string_def Decode_def table_NewDecoder_def
          body_defs requires_id_def)
  have e: "sent (writer (echo new_response (post body_two_ids) quiet)) = body_two_ids"
    by (simp add: echo_def ReadAll_def post_def nopCloser_NewReader_def response_Write_def
          response_WriteHeader_def new_response_def Let_def)
  show ?thesis
    using s e valid_body_is_forwarded
      [of "post body_two_ids" scenario_library
          "[Some (JObject [(''id'', JNumber 1)]), Some (JObject [(''id'', JNumber 2)])]"
          3 response_ops echo new_response quiet]
      v table_two_ids
    by (simp add: post_Body)
qed

text \<open>The empty body with the schema of the scenarios, and in the single-document gate.\<close>

theorem empty_body_is_forwarded_by_decoding_gates_witness:
  "ValidateJSONSchema 1 response_ops scenario_library echo new_response (post []) quiet =
     Some (echo new_response (post []) quiet) \<and>
   ValidateJSONSchema_aggregate 1 response_ops scenario_library echo new_response (post []) quiet =
     Some (echo new_response (post []) quiet) \<and>
   sent (writer (echo new_response (post []) quiet)) = [] \<and>
   ValidateJSONSchema_single response_ops permissive_library echo new_response (post []) quiet =
     Result (http_Error response_ops new_response ''Failed to validate: EOF'' StatusBadRequest)
       ((post [])\<lparr>Body := snd (ReadAll (Body (post [])))\<rparr>) quiet Returned"
proof -
  have e: "sent (writer (echo new_response (post []) quiet)) = []"
    by (simp add: echo_def ReadAll_def post_def nopCloser_NewReader_def response_Write_def
          response_WriteHeader_def new_response_def Let_def)
  have s: "ValidateString permissive_library [] = Inl ''EOF''"
    by (simp add: permissive_library_def via_string_def Decode_def table_NewDecoder_def)
  have p: "queue (NewDecoder permissive_library []) = []"
          "final (NewDecoder permissive_library []) = EOF"
    by (simp_all add: permissive_library_def table_NewDecoder_def)
  show ?thesis
    using e s
      empty_body_is_forwarded_by_decoding_gates
        [of "post []" scenario_library 1 response_ops echo new_response quiet]
      empty_body_is_forwarded_by_decoding_gates
        [of "post []" permissive_library 1 response_ops echo new_response quiet]
      table_empty p
    by (simp add: post_Body)
qed

text \<open>
  The single-document gate on the empty body: the engine fails to load the empty text,
  the gate answers 400 and the handler, which would have answered 200, is not called.
\<close>

theorem single_document_empty_body_counterexample:
  "ValidateString scenario_library [] = Inl ''EOF'' \<and>
   statusCode (writer (ValidateJSONSchema_single response_ops scenario_library echo new_response
                         (post []) quiet)) = 400 \<and>
   sent (writer (ValidateJSONSchema_single response_ops scenario_library echo new_response
                   (post []) quiet)) = ''Failed to validate: EOF'' @ [CHR 0x0A] \<and>
   statusCode (writer (echo new_response (post []) quiet)) = 200"
proof -
  have s: "ValidateString scenario_library [] = Inl ''EOF''"
    by (simp add: scenario_library_def via_string_def Decode_def table_NewDecoder_def)
  show ?thesis
    by (simp add: s ValidateJSONSchema_single_def ReadAll_def post_Body http_Error_response
          new_response_def echo_def response_Write_def response_WriteHeader_def Let_def)
qed

text \<open>Scenario B of the spec.\<close>

theorem invalid_document_is_rejected_witness:
  "(\<exists>x'. statusCode x' = StatusBadRequest \<and> wroteHeader x' \<and>
      (\<forall>next. ValidateJSONSchema 2 response_ops scenario_library next new_response
                 (post body_name) quiet =
         Some (Result x' ((post body_name)\<lparr>Body := snd (ReadAll (Body (post body_name)))\<rparr>)
                 quiet Returned))) \<and>
   (\<exists>x'. statusCode x' = StatusBadRequest \<and> wroteHeader x' \<and>
      (\<forall>next. ValidateJSONSchema_aggregate 2 response_ops scenario_library next new_response
                 (post body_name) quiet =
         Some (Result x' ((post body_name)\<lparr>Body := snd (ReadAll (Body (post body_name)))\<rparr>)
                 quiet Returned))) \<and>
   map_option (\<lambda>res. (statusCode (writer res), sent (writer res)))
     (ValidateJSONSchema (Suc (Suc 0)) response_ops scenario_library echo new_response
        (post body_name) quiet) =
     Some (400, ''valid=false errors=id is required;'' @ [CHR 0x0A])"
proof -
  have v: "map (Validate scenario_library) [Some (JObject [(''name'', JString ''x'')])] =
             map Inr [[missing_id]]"
    by (simp add: scenario_library_def requires_id_def)
  have b: "\<exists>vr\<in>set [[missing_id]]. vr \<noteq> []"
    by simp
  have w: "\<not> wroteHeader new_response"
    by (simp add: new_response_def)
  have l: "length [Some (JObject [(''name'', JString ''x'')])] < 2"
    by simp
  note t = invalid_document_is_rejected
      [of "post body_name" scenario_library "[Some (JObject [(''name'', JString ''x'')])]"
          "[[missing_id]]" 2 new_response quiet,
       unfolded post_Body, OF refl table_name v b l w]
  have e: "map_option (\<lambda>res. (statusCode (writer res), sent (writer res)))
     (ValidateJSONSchema (Suc (Suc 0)) response_ops scenario_library echo new_response
        (post body_name) quiet) =
     Some (400, ''valid=false errors=id is required;'' @ [CHR 0x0A])"
    by (simp add: ValidateJSONSchema_read post_Body Decode_def table_NewDecoder_def
          body_defs scenario_library_def requires_id_def Result_Valid_def
          ValidationResult_MarshalJSON_def plain_MarshalMap_def missing_id_def
          http_Error_response new_response_def)
  from t e show ?thesis
    by (simp add: post_Body)
qed

theorem aggregate_reports_every_document_witness:
  "map_option (\<lambda>res. sent (writer res))
     (ValidateJSONSchema_aggregate 3 response_ops scenario_library echo new_response
        (post body_two_names) quiet) =
     Some (''valid=false errors=property=id;'' @ [CHR 0x0A] @
           ''valid=false errors=property=id;'' @ [CHR 0x0A]) \<and>
   map_option (\<lambda>res. sent (writer res))
     (ValidateJSONSchema 3 response_ops scenario_library echo new_response
        (post body_two_names) quiet) =
     Some (''valid=false errors=id is required;'' @ [CHR 0x0A])"
proof -
  have v1: "\<forall>d\<in>set []. Validate scenario_library d = Inr []"
    by simp
  have v2: "Validate scenario_library (Some (JObject [(''name'', JString ''x'')])) = Inr [missing_id]"
    by (simp add: scenario_library_def requires_id_def)
  have v3: "[missing_id] \<noteq> []"
    by simp
  have v4: "map (Validate scenario_library) [Some (JObject [(''name'', JString ''y'')])] =
              map Inr [[missing_id]]"
    by (simp add: scenario_library_def requires_id_def)
  have l: "length ([]::json option list) + length [Some (JObject [(''name'', JString ''y'')])] + 1 < 3"
    by simp
  note t = aggregate_reports_every_document
      [of "post body_two_names" scenario_library "[]" "Some (JObject [(''name'', JString ''x'')])"
          "[Some (JObject [(''name'', JString ''y'')])]" "[missing_id]" "[[missing_id]]" 3
          echo new_response quiet,
       unfolded post_Body, OF refl table_two_names v1 v2 v3 v4 l]
  from t show ?thesis
    by (simp add: new_response_def scenario_library_def plain_MarshalStruct_def
          plain_MarshalMap_def ErrorValidationResult_def ValidationResult_MarshalJSON_def
          Result_Valid_def missing_id_def)
qed

text \<open>
  Two invalid documents: the response of the gate of \<^verbatim>\<open>src/validate.go\<close> holds one
  report, and is the response to the first document alone.
\<close>

theorem first_invalid_only_counterexample:
  "map_option (\<lambda>res. sent (writer res))
     (ValidateJSONSchema (Suc (Suc (Suc 0))) response_ops scenario_library echo new_response
        (post body_two_names) quiet) =
     Some (''valid=false errors=id is required;'' @ [CHR 0x0A]) \<and>
   ValidateJSONSchema (Suc (Suc (Suc 0))) response_ops scenario_library echo new_response
        (post body_two_names) quiet =
     ValidateJSONSchema (Suc (Suc (Suc 0))) response_ops scenario_library echo new_response
        (post body_name) quiet"
  by (simp add: ValidateJSONSchema_read post_Body Decode_def table_NewDecoder_def
        body_defs
        scenario_library_def requires_id_def Result_Valid_def
        ValidationResult_MarshalJSON_def plain_MarshalMap_def missing_id_def
        http_Error_response new_response_def post_def ReadAll_def nopCloser_NewReader_def)

theorem engine_failure_aborts_witness:
  "map_option (\<lambda>res. (statusCode (writer res), sent (writer res)))
     (ValidateJSONSchema_aggregate 2 response_ops faulty_library echo new_response
        (post body_two_ids) quiet) =
     Some (500, ''Failed to validate: engine failure'' @ [CHR 0x0A]) \<and>
   map_option (\<lambda>res. (statusCode (writer res), sent (writer res)))
     (ValidateJSONSchema 2 response_ops faulty_library echo new_response
        (post body_two_ids) quiet) =
     Some (500, ''Failed to validate: engine failure'' @ [CHR 0x0A])"
proof -
  have q: "queue (NewDecoder faulty_library body_two_ids) =
     map (\<lambda>d. (d, None)) [Some (JObject [(''id'', JNumber 1)])] @
       (Some (JObject [(''id'', JNumber 2)]), None) # []"
    by (simp add: faulty_library_def table_NewDecoder_def body_defs)
  have v: "map (Validate faulty_library) [Some (JObject [(''id'', JNumber 1)])] = map Inr [[]]"
    by (simp add: faulty_library_def fails_on_2_def requires_id_def)
  have f: "Validate faulty_library (Some (JObject [(''id'', JNumber 2)])) = Inl ''engine failure''"
    by (simp add: faulty_library_def fails_on_2_def)
  have l: "length [Some (JObject [(''id'', JNumber 1)])] < 2"
    by simp
  have w: "\<not> wroteHeader new_response"
    by (simp add: new_response_def)
  have a: "\<forall>vr\<in>set [[]::Result]. vr = []"
    by simp
  note t = engine_failure_aborts
      [of "post body_two_ids" faulty_library "[Some (JObject [(''id'', JNumber 1)])]"
          "Some (JObject [(''id'', JNumber 2)])" "[]" "[[]]" "''engine failure''" 2
          new_response echo quiet,
       unfolded post_Body, OF refl q v f l w]
  from t a show ?thesis
    by (simp add: http_Error_response new_response_def)
qed

text \<open>
  An error of the engine in the single-document gate is answered with status 400: for
  a text the engine cannot load, and for an engine that fails on a well-formed document.
\<close>

theorem single_document_engine_failure_counterexample:
  "ValidateString scenario_library body_truncated = Inl ''unexpected EOF'' \<and>
   statusCode (writer (ValidateJSONSchema_single response_ops scenario_library echo new_response
                         (post body_truncated) quiet)) = 400 \<and>
   sent (writer (ValidateJSONSchema_single response_ops scenario_library echo new_response
                   (post body_truncated) quiet)) =
     ''Failed to validate: unexpected EOF'' @ [CHR 0x0A] \<and>
   ValidateString faulty_library body_id_2 = Inl ''engine failure'' \<and>
   statusCode (writer (ValidateJSONSchema_single response_ops faulty_library echo new_response
                         (post body_id_2) quiet)) = 400"
proof -
  have s: "ValidateString scenario_library body_truncated = Inl ''unexpected EOF''"
    by (simp add: scenario_library_def via_string_def Decode_def table_truncated)
  have f: "ValidateString faulty_library body_id_2 = Inl ''engine failure''"
    by (simp add: faulty_library_def via_string_def Decode_def table_NewDecoder_def body_defs
          fails_on_2_def)
  show ?thesis
    by (simp add: s f ValidateJSONSchema_single_def ReadAll_def post_Body http_Error_response
          new_response_def)
qed

lemma table_name_truncated:
  "queue (NewDecoder scenario_library body_name_truncated) =
     map (\<lambda>d. (d, None)) [Some (JObject [(''name'', JString ''x'')])] @ []"
  "final (NewDecoder scenario_library body_name_truncated) = OtherError ''unexpected EOF''"
  by (simp_all add: scenario_library_def table_NewDecoder_def body_defs)

text \<open>
  Claim C2 at the body \<^verbatim>\<open>{"name":"x"}{\<close>: one document, which the schema of the
  scenarios judges invalid, followed by a truncated one, on which every later
  \<^verbatim>\<open>Decode\<close> returns the same syntax error. The collecting gate of
  \<^verbatim>\<open>src/unnamed/part_001\<close> counts the invalid document and then never returns (no
  amount of fuel is enough): its branch for a decoding error has no \<^verbatim>\<open>return\<close>, so
  no response is written. The gate of \<^verbatim>\<open>src/validate.go\<close> returns at the invalid
  document with status 400.
\<close>

theorem invalid_document_before_truncated_tail:
  "Validate scenario_library (Some (JObject [(''name'', JString ''x'')])) = Inr [missing_id] \<and>
   ValidateJSONSchema_aggregate fuel response_ops scenario_library next new_response
       (post body_name_truncated) st = None \<and>
   ValidateJSONSchema (Suc fuel) response_ops scenario_library next new_response
       (post body_name_truncated) st =
     Some (Result (http_Error response_ops new_response
                     (plain_MarshalMap False [''id is required'']) StatusBadRequest)
             ((post body_name_truncated)\<lparr>Body := snd (ReadAll (Body (post body_name_truncated)))\<rparr>)
             st Returned) \<and>
   statusCode (http_Error response_ops new_response
                 (plain_MarshalMap False [''id is required'']) StatusBadRequest) = 400"
proof (intro conjI)
  show v: "Validate scenario_library (Some (JObject [(''name'', JString ''x'')])) = Inr [missing_id]"
    by (simp add: scenario_library_def requires_id_def)
  have nil: "Validate scenario_library None = Inr [not_an_object]"
    by (simp add: scenario_library_def requires_id_def)
  have m: "map (Validate scenario_library) [Some (JObject [(''name'', JString ''x'')])] =
             map Inr [[missing_id]]"
    by (simp add: v)
  have "aggregate_loop fuel response_ops scenario_library
          (NewDecoder scenario_library body_name_truncated) new_response 0 [] = None"
  proof (cases fuel)
    case 0
    then show ?thesis by simp
  next
    case (Suc n)
    have "aggregate_loop (length [Some (JObject [(''name'', JString ''x'')])] + n)
            response_ops scenario_library
            (NewDecoder scenario_library body_name_truncated) new_response 0 [] =
          aggregate_loop n response_ops scenario_library
            ((NewDecoder scenario_library body_name_truncated)\<lparr>queue := []\<rparr>) new_response
            (0 + int (length (filter (\<lambda>vr. vr \<noteq> []) [[missing_id]])))
            ([] @ map ErrorValidationResult [[missing_id]])"
      using table_name_truncated(1) m by (rule aggregate_loop_prefix)
    also have "\<dots> = None"
      by (rule aggregate_loop_sticky [where e = "''unexpected EOF''" and vr = "[not_an_object]"])
         (simp_all add: table_name_truncated nil)
    finally show ?thesis by (simp add: Suc)
  qed
  then show "ValidateJSONSchema_aggregate fuel response_ops scenario_library next new_response
       (post body_name_truncated) st = None"
    by (simp add: ValidateJSONSchema_aggregate_read post_Body)
  have "validate_loop (Suc fuel) response_ops scenario_library
          (NewDecoder scenario_library body_name_truncated) new_response =
        Some (Return (http_Error response_ops new_response
                        (ValidationResult_MarshalJSON scenario_library [missing_id])
                        StatusBadRequest))"
  proof (rule validate_loop_at_invalid)
    show "queue (NewDecoder scenario_library body_name_truncated) =
            (Some (JObject [(''name'', JString ''x'')]), None) # []"
      by (simp add: table_name_truncated)
    show "Validate scenario_library (Some (JObject [(''name'', JString ''x'')])) = Inr [missing_id]"
      by (rule v)
    show "[missing_id] \<noteq> []"
      by simp
  qed
  then show "ValidateJSONSchema (Suc fuel) response_ops scenario_library next new_response
       (post body_name_truncated) st =
     Some (Result (http_Error response_ops new_response
                     (plain_MarshalMap False [''id is required'']) StatusBadRequest)
             ((post body_name_truncated)\<lparr>Body := snd (ReadAll (Body (post body_name_truncated)))\<rparr>)
             st Returned)"
    by (simp add: ValidateJSONSchema_read post_Body ValidationResult_MarshalJSON_def
          scenario_library_def Result_Valid_def missing_id_def)
  show "statusCode (http_Error response_ops new_response
                 (plain_MarshalMap False [''id is required'']) StatusBadRequest) = 400"
    by (simp add: http_Error_response new_response_def)
qed

text \<open>
  Claim C4 at the truncated body \<^verbatim>\<open>{\<close>, on which every \<^verbatim>\<open>Decode\<close> returns the same
  syntax error. The branch for a decoding error has no \<^verbatim>\<open>return\<close>: the collecting
  gate never returns (no amount of fuel is enough), with any schema whose engine returns
  a result for nil; the gate of \<^verbatim>\<open>src/validate.go\<close> never returns when the schema
  accepts nil. On the body \<^verbatim>\<open>1e999\<close>, whose decoding error is not kept by the
  decoder, the gate of \<^verbatim>\<open>src/validate.go\<close> with such a schema writes the 400 and
  then calls the wrapped handler.
\<close>

theorem malformed_body_is_not_rejected:
  "ValidateJSONSchema_aggregate fuel response_ops scenario_library next new_response
       (post body_truncated) st = None \<and>
   ValidateJSONSchema fuel response_ops permissive_library next new_response
       (post body_truncated) st = None \<and>
   ValidateJSONSchema (Suc (Suc fuel)) response_ops permissive_library next new_response
       (post body_huge_number) st =
     Some (next (http_Error response_ops new_response
                   (''Invalid JSON: json: cannot unmarshal number 1e999 into Go value of type float64'')
                   StatusBadRequest)
             (post body_huge_number) st)"
proof (intro conjI)
  show "ValidateJSONSchema_aggregate fuel response_ops scenario_library next new_response
       (post body_truncated) st = None"
    by (rule gate_aggregate_sticky [where e = "''unexpected EOF''" and vr = "[not_an_object]"])
       (simp_all add: post_Body scenario_library_def table_truncated requires_id_def)
  show "ValidateJSONSchema fuel response_ops permissive_library next new_response
       (post body_truncated) st = None"
    by (rule gate_sticky [where e = "''unexpected EOF''"])
       (simp_all add: post_Body permissive_library_def table_truncated accepts_all_def)
  show "ValidateJSONSchema (Suc (Suc fuel)) response_ops permissive_library next new_response
       (post body_huge_number) st =
     Some (next (http_Error response_ops new_response
                   (''Invalid JSON: json: cannot unmarshal number 1e999 into Go value of type float64'')
                   StatusBadRequest)
             (post body_huge_number) st)"
    by (simp add: ValidateJSONSchema_read post_Body permissive_library_def table_huge_number
          Decode_def accepts_all_def Result_Valid_def)
qed

end
